theory Spec2Isabelle
  imports Main "HOL-Library.Multiset"
begin

section \<open>Retry policy\<close>

text \<open>
  The constants of \<^verbatim>\<open>src/queue.ts\<close> (lines 35-39) and of \<^verbatim>\<open>src/channel.ts\<close>
  (lines 404-406). Times are milliseconds; every value that occurs is an integer far
  below 2^53, so the JavaScript doubles are modelled by \<^typ>\<open>int\<close> and retry counts by
  \<^typ>\<open>nat\<close>.
\<close>

definition MAX_RETRIES :: nat where
  "MAX_RETRIES = 120"

definition RETRY_BACKOFF_BASE_MS :: int where
  "RETRY_BACKOFF_BASE_MS = 1000"

definition RETRY_BACKOFF_MAX_MS :: int where
  "RETRY_BACKOFF_MAX_MS = 120 * 60 * 1000"

definition MESSAGE_TTL_MS :: int where
  "MESSAGE_TTL_MS = 30 * 24 * 60 * 60 * 1000"

definition DEDUP_WINDOW_MS :: int where
  "DEDUP_WINDOW_MS = 10 * 60 * 1000"

definition SEND_MAX_RETRIES :: nat where
  "SEND_MAX_RETRIES = 120"

definition SEND_RETRY_BASE_MS :: int where
  "SEND_RETRY_BASE_MS = 1000"

definition SEND_RETRY_MAX_MS :: int where
  "SEND_RETRY_MAX_MS = 120 * 60 * 1000"

text \<open>
  \<^verbatim>\<open>calculateBackoff(retries)\<close>, queue.ts lines 259-265:
  \<^verbatim>\<open>RETRY_BACKOFF_BASE_MS * Math.pow(2, Math.min(retries, 17))\<close>, capped.
\<close>

definition calculateBackoff :: "nat \<Rightarrow> int" where
  "calculateBackoff retries =
     (let backoff = RETRY_BACKOFF_BASE_MS * 2 ^ (min retries 17)
      in min backoff RETRY_BACKOFF_MAX_MS)"

definition hasExceededMaxRetries :: "nat \<Rightarrow> bool" where
  "hasExceededMaxRetries retries = (retries \<ge> MAX_RETRIES)"

text \<open>
  \<^verbatim>\<open>calculateSendBackoff(attempt)\<close>, channel.ts lines 416-419 (the same text in
  dist/src/channel.js lines 518-521):
  \<^verbatim>\<open>SEND_RETRY_BASE_MS * Math.pow(2, Math.min(attempt - 1, 17))\<close>, capped. Its only
  caller passes the loop counter, which starts at 1, so \<open>attempt - 1\<close> never goes below
  zero and the truncating subtraction of \<^typ>\<open>nat\<close> is the source's subtraction there.
\<close>

definition calculateSendBackoff :: "nat \<Rightarrow> int" where
  "calculateSendBackoff attempt =
     (let backoff = SEND_RETRY_BASE_MS * 2 ^ (min (attempt - 1) 17)
      in min backoff SEND_RETRY_MAX_MS)"

text \<open>
  The formula as the specification words it:
  \<open>backoff(n) = min(BASE_MS * 2^min(n-1, 17), MAX_BACKOFF_MS)\<close> with \<open>BASE_MS = 1000\<close>
  and \<open>MAX_BACKOFF_MS = 120*60*1000\<close>. It is compared below with the two functions of
  the source.
\<close>

definition spec_backoff :: "nat \<Rightarrow> int" where
  "spec_backoff n = min (1000 * 2 ^ (min (n - 1) 17)) (120 * 60 * 1000)"

section \<open>The durable store\<close>

text \<open>
  The three tables of \<^verbatim>\<open>initializeSchema\<close> (queue.ts lines 165-221). A row is a
  record with the columns of its table; \<^verbatim>\<open>QueueMessage\<close> of src/types.ts holds the
  columns the two queues share and the two message types extend it. A nullable column is
  an \<^typ>\<open>'a option\<close>. The primary key \<^verbatim>\<open>id\<close> is written \<open>row_id\<close>, and the
  columns of the inbound and the sent table that repeat a name of the outbound table
  carry a prefix.
\<close>

datatype Status = Pending | Processing | Completed | FailedPermanent

record QueueMessage =
  row_id :: int
  status :: Status
  retries :: nat
  next_retry_at :: "int option"
  created_at :: int
  updated_at :: int
  completed_at :: "int option"
  last_error :: "string option"

record InboundMessage = QueueMessage +
  message_id :: string
  in_chat_id :: string
  in_session_key :: string
  message_text :: string
  attachments_json :: "string option"
  response_text :: "string option"

datatype QueueType = Reply | Mirror

record OutboundMessage = QueueMessage +
  queue_type :: QueueType
  run_id :: string
  session_key :: string
  chat_id :: string
  content :: string
  content_hash :: string
  lark_message_id :: "string option"

record SentRecord =
  sent_id :: int
  sent_content_hash :: string
  sent_chat_id :: string
  sent_lark_message_id :: "string option"
  sent_created_at :: int

text \<open>
  A table is the list of its rows in insertion order. Each table has an
  \<^verbatim>\<open>AUTOINCREMENT\<close> key: the sequence value is the largest key the table ever held,
  and a new row gets one more than the larger of that and the largest key present.
\<close>

record Store =
  outbound_queue :: "OutboundMessage list"
  outbound_seq :: int
  inbound_queue :: "InboundMessage list"
  inbound_seq :: int
  sent_messages :: "SentRecord list"
  sent_seq :: int

definition next_rowid :: "int list \<Rightarrow> int \<Rightarrow> int" where
  "next_rowid ids seq = fold max ids seq + 1"

text \<open>The result object of the two enqueue operations (\<^verbatim>\<open>EnqueueResult\<close>, src/types.ts).\<close>

record EnqueueResult =
  enqueued :: bool
  reason :: "string option"
  result_id :: "int option"
  existing :: "Status option"

text \<open>
  The parameter objects of \<^verbatim>\<open>enqueueOutbound\<close> and \<^verbatim>\<open>enqueueInbound\<close>. The field
  \<open>content\<close> of the first is written \<open>p_content\<close>. \<open>attachments\<close> holds the text
  \<^verbatim>\<open>JSON.stringify\<close> makes of the attachment array, \<open>None\<close> when the caller passes
  none.
\<close>

record OutboundParams =
  runId :: "string option"
  sessionKey :: string
  chatId :: string
  p_content :: string

record InboundParams =
  messageId :: string
  in_chatId :: string
  in_sessionKey :: string
  messageText :: string
  attachments :: "string option"

subsection \<open>The prepared statements\<close>

text \<open>
  \<open>WHERE status = 'pending' AND (next_retry_at IS NULL OR next_retry_at <= ?)\<close>, the
  condition of both dequeue statements (queue.ts lines 93-99 and 135-141).
\<close>

definition due :: "int \<Rightarrow> 'a QueueMessage_scheme \<Rightarrow> bool" where
  "due now r = (status r = Pending \<and>
     (case next_retry_at r of None \<Rightarrow> True | Some t \<Rightarrow> t \<le> now))"

text \<open>
  \<open>SELECT * ... ORDER BY created_at ASC LIMIT ?\<close>. The limit is a row count (the callers
  pass 3, 5 and 10), a \<^typ>\<open>nat\<close>. SQL leaves the order of rows with equal
  \<open>created_at\<close> open; the model keeps them in table order.
\<close>

definition stmtDequeueOutbound :: "int \<Rightarrow> nat \<Rightarrow> Store \<Rightarrow> OutboundMessage list" where
  "stmtDequeueOutbound now limit s =
     take limit (sort_key created_at (filter (due now) (outbound_queue s)))"

definition stmtDequeueInbound :: "int \<Rightarrow> nat \<Rightarrow> Store \<Rightarrow> InboundMessage list" where
  "stmtDequeueInbound now limit s =
     take limit (sort_key created_at (filter (due now) (inbound_queue s)))"

text \<open>
  \<open>SELECT id FROM outbound_queue WHERE content_hash = ? AND chat_id = ? AND created_at > ?
  AND status IN ('pending', 'processing') LIMIT 1\<close> (lines 101-105).
\<close>

definition stmtCheckOutboundDupe :: "string \<Rightarrow> string \<Rightarrow> int \<Rightarrow> Store \<Rightarrow> int option" where
  "stmtCheckOutboundDupe hash chat cutoff s =
     map_option row_id
       (find (\<lambda>r. content_hash r = hash \<and> chat_id r = chat \<and> created_at r > cutoff \<and>
                   (status r = Pending \<or> status r = Processing))
          (outbound_queue s))"

text \<open>
  \<open>SELECT id FROM sent_messages WHERE content_hash = ? AND chat_id = ? AND created_at > ?
  LIMIT 1\<close> (lines 107-111).
\<close>

definition stmtCheckSentDupe :: "string \<Rightarrow> string \<Rightarrow> int \<Rightarrow> Store \<Rightarrow> int option" where
  "stmtCheckSentDupe hash chat cutoff s =
     map_option sent_id
       (find (\<lambda>r. sent_content_hash r = hash \<and> sent_chat_id r = chat \<and>
                   sent_created_at r > cutoff)
          (sent_messages s))"

text \<open>
  \<open>INSERT INTO outbound_queue (queue_type, run_id, session_key, chat_id, content,
  content_hash, status, created_at, updated_at, next_retry_at) VALUES (?, ?, ?, ?, ?, ?,
  'pending', ?, ?, ?)\<close> (lines 87-91); the other columns take their defaults. The
  result is \<open>lastInsertRowid\<close> and the new store.
\<close>

definition stmtEnqueueOutbound ::
  "QueueType \<Rightarrow> string \<Rightarrow> string \<Rightarrow> string \<Rightarrow> string \<Rightarrow> string \<Rightarrow> int \<Rightarrow> int \<Rightarrow> int
     \<Rightarrow> Store \<Rightarrow> int \<times> Store" where
  "stmtEnqueueOutbound qt run sk chat txt hash created updated next s =
     (let new_id = next_rowid (map row_id (outbound_queue s)) (outbound_seq s);
          row = \<lparr>row_id = new_id, status = Pending, retries = 0,
                 next_retry_at = Some next, created_at = created, updated_at = updated,
                 completed_at = None, last_error = None,
                 queue_type = qt, run_id = run, session_key = sk, chat_id = chat,
                 content = txt, content_hash = hash, lark_message_id = None\<rparr>
      in (new_id, s\<lparr>outbound_queue := outbound_queue s @ [row], outbound_seq := new_id\<rparr>))"

text \<open>
  \<open>UPDATE outbound_queue SET status = ?, updated_at = ?, retries = ?, next_retry_at = ?,
  last_error = ?, completed_at = ?, lark_message_id = ? WHERE id = ?\<close> (lines 113-118).
\<close>

definition stmtUpdateOutbound ::
  "Status \<Rightarrow> int \<Rightarrow> nat \<Rightarrow> int option \<Rightarrow> string option \<Rightarrow> int option \<Rightarrow> string option
     \<Rightarrow> int \<Rightarrow> Store \<Rightarrow> Store" where
  "stmtUpdateOutbound st upd n next err fin lark i s =
     s\<lparr>outbound_queue :=
         map (\<lambda>r. if row_id r = i
                   then r\<lparr>status := st, updated_at := upd, retries := n,
                          next_retry_at := next, last_error := err, completed_at := fin,
                          lark_message_id := lark\<rparr>
                   else r)
           (outbound_queue s)\<rparr>"

text \<open>
  \<open>UPDATE outbound_queue SET status = 'processing', updated_at = ? WHERE id = ?\<close>
  (lines 120-122).
\<close>

definition stmtMarkOutboundProcessing :: "int \<Rightarrow> int \<Rightarrow> Store \<Rightarrow> Store" where
  "stmtMarkOutboundProcessing upd i s =
     s\<lparr>outbound_queue :=
         map (\<lambda>r. if row_id r = i then r\<lparr>status := Processing, updated_at := upd\<rparr> else r)
           (outbound_queue s)\<rparr>"

text \<open>
  \<open>INSERT INTO sent_messages (content_hash, chat_id, lark_message_id, created_at)
  VALUES (?, ?, ?, ?)\<close> (lines 124-127).
\<close>

definition stmtRecordSent :: "string \<Rightarrow> string \<Rightarrow> string option \<Rightarrow> int \<Rightarrow> Store \<Rightarrow> Store" where
  "stmtRecordSent hash chat lark created s =
     (let new_id = next_rowid (map sent_id (sent_messages s)) (sent_seq s);
          row = \<lparr>sent_id = new_id, sent_content_hash = hash, sent_chat_id = chat,
                 sent_lark_message_id = lark, sent_created_at = created\<rparr>
      in s\<lparr>sent_messages := sent_messages s @ [row], sent_seq := new_id\<rparr>)"

text \<open>
  \<open>INSERT OR IGNORE INTO inbound_queue (message_id, chat_id, session_key, message_text,
  attachments_json, status, created_at, updated_at, next_retry_at) VALUES (?, ?, ?, ?, ?,
  'pending', ?, ?, ?)\<close> (lines 129-133). \<open>message_id\<close> is \<open>UNIQUE\<close>: a conflicting
  insert is ignored. The result is \<open>(changes, lastInsertRowid)\<close> and the new store;
  \<open>lastInsertRowid\<close> is only read by the caller when \<open>changes > 0\<close>.
\<close>

definition stmtEnqueueInbound ::
  "string \<Rightarrow> string \<Rightarrow> string \<Rightarrow> string \<Rightarrow> string option \<Rightarrow> int \<Rightarrow> int \<Rightarrow> int
     \<Rightarrow> Store \<Rightarrow> (nat \<times> int) \<times> Store" where
  "stmtEnqueueInbound mid chat sk txt att created updated next s =
     (if \<exists>r \<in> set (inbound_queue s). message_id r = mid
      then ((0, 0), s)
      else
        let new_id = next_rowid (map row_id (inbound_queue s)) (inbound_seq s);
            row = \<lparr>row_id = new_id, status = Pending, retries = 0,
                   next_retry_at = Some next, created_at = created, updated_at = updated,
                   completed_at = None, last_error = None,
                   message_id = mid, in_chat_id = chat, in_session_key = sk,
                   message_text = txt, attachments_json = att, response_text = None\<rparr>
        in ((1, new_id),
            s\<lparr>inbound_queue := inbound_queue s @ [row], inbound_seq := new_id\<rparr>))"

text \<open>
  \<open>UPDATE inbound_queue SET status = ?, updated_at = ?, retries = ?, next_retry_at = ?,
  last_error = ?, completed_at = ?, response_text = ? WHERE id = ?\<close> (lines 143-148).
\<close>

definition stmtUpdateInbound ::
  "Status \<Rightarrow> int \<Rightarrow> nat \<Rightarrow> int option \<Rightarrow> string option \<Rightarrow> int option \<Rightarrow> string option
     \<Rightarrow> int \<Rightarrow> Store \<Rightarrow> Store" where
  "stmtUpdateInbound st upd n next err fin resp i s =
     s\<lparr>inbound_queue :=
         map (\<lambda>r. if row_id r = i
                   then r\<lparr>status := st, updated_at := upd, retries := n,
                          next_retry_at := next, last_error := err, completed_at := fin,
                          response_text := resp\<rparr>
                   else r)
           (inbound_queue s)\<rparr>"

text \<open>
  \<open>UPDATE inbound_queue SET status = 'processing', updated_at = ? WHERE id = ?\<close>
  (lines 150-152).
\<close>

definition stmtMarkInboundProcessing :: "int \<Rightarrow> int \<Rightarrow> Store \<Rightarrow> Store" where
  "stmtMarkInboundProcessing upd i s =
     s\<lparr>inbound_queue :=
         map (\<lambda>r. if row_id r = i then r\<lparr>status := Processing, updated_at := upd\<rparr> else r)
           (inbound_queue s)\<rparr>"

text \<open>\<open>SELECT id, status FROM inbound_queue WHERE message_id = ?\<close> (lines 154-156).\<close>

definition stmtCheckInboundExists :: "string \<Rightarrow> Store \<Rightarrow> (int \<times> Status) option" where
  "stmtCheckInboundExists mid s =
     map_option (\<lambda>r. (row_id r, status r)) (find (\<lambda>r. message_id r = mid) (inbound_queue s))"

text \<open>
  \<open>SELECT * FROM outbound_queue WHERE id = ?\<close> and its inbound twin, prepared inline by
  the mark operations.
\<close>

definition selectOutbound :: "int \<Rightarrow> Store \<Rightarrow> OutboundMessage option" where
  "selectOutbound i s = find (\<lambda>r. row_id r = i) (outbound_queue s)"

definition selectInbound :: "int \<Rightarrow> Store \<Rightarrow> InboundMessage option" where
  "selectInbound i s = find (\<lambda>r. row_id r = i) (inbound_queue s)"

section \<open>The queue engine\<close>

text \<open>
  The methods of \<^verbatim>\<open>MessageQueue\<close>. Each takes the store and returns the new store
  (with the method's result, where it has one). Every \<^verbatim>\<open>Date.now()\<close> a method reads
  is its first argument \<open>now\<close>. \<^verbatim>\<open>hashContent\<close> is the MD5 digest of node's crypto
  module, which is not part of the repository: it is the parameter \<open>h\<close>.
\<close>

subsection \<open>Startup reset, lines 227-251\<close>

definition resetStuckMessages :: "int \<Rightarrow> Store \<Rightarrow> Store" where
  "resetStuckMessages now s =
     (let s1 = s\<lparr>inbound_queue :=
                  map (\<lambda>r. if status r = Processing
                            then r\<lparr>status := Pending, retries := retries r, updated_at := now\<rparr>
                            else r)
                    (inbound_queue s)\<rparr>
      in s1\<lparr>outbound_queue :=
               map (\<lambda>r. if status r = Processing
                         then r\<lparr>status := Pending, retries := retries r, updated_at := now\<rparr>
                         else r)
                 (outbound_queue s1)\<rparr>)"

subsection \<open>Outbound queue, lines 276-383\<close>

definition enqueueOutbound ::
  "(string \<Rightarrow> string) \<Rightarrow> int \<Rightarrow> QueueType \<Rightarrow> OutboundParams \<Rightarrow> Store
     \<Rightarrow> EnqueueResult \<times> Store" where
  "enqueueOutbound h now queueType params s =
     (let hash = h (p_content params);
          dedupCutoff = now - DEDUP_WINDOW_MS
      in case stmtCheckOutboundDupe hash (chatId params) dedupCutoff s of
           Some _ \<Rightarrow>
             (\<lparr>enqueued = False, reason = Some ''duplicate_pending'', result_id = None,
               existing = None\<rparr>, s)
         | None \<Rightarrow>
            (case stmtCheckSentDupe hash (chatId params) dedupCutoff s of
               Some _ \<Rightarrow>
                 (\<lparr>enqueued = False, reason = Some ''already_sent'', result_id = None,
                   existing = None\<rparr>, s)
             | None \<Rightarrow>
                 (let (lastInsertRowid, s') =
                        stmtEnqueueOutbound queueType
                          (case runId params of None \<Rightarrow> [] | Some r \<Rightarrow> r)
                          (sessionKey params) (chatId params) (p_content params) hash
                          now now now s
                  in (\<lparr>enqueued = True, reason = None, result_id = Some lastInsertRowid,
                       existing = None\<rparr>, s'))))"

definition dequeueOutbound :: "int \<Rightarrow> nat \<Rightarrow> Store \<Rightarrow> OutboundMessage list \<times> Store" where
  "dequeueOutbound now limit s = (stmtDequeueOutbound now limit s, s)"

definition markOutboundProcessing :: "int \<Rightarrow> int \<Rightarrow> Store \<Rightarrow> Store" where
  "markOutboundProcessing now i s = stmtMarkOutboundProcessing now i s"

definition markOutboundCompleted :: "int \<Rightarrow> int \<Rightarrow> string option \<Rightarrow> Store \<Rightarrow> Store" where
  "markOutboundCompleted now i larkMessageId s =
     (let msg = selectOutbound i s;
          s1 = stmtUpdateOutbound Completed now
                 (case msg of None \<Rightarrow> 0 | Some m \<Rightarrow> retries m)
                 None None (Some now) larkMessageId i s
      in case msg of
           Some m \<Rightarrow> stmtRecordSent (content_hash m) (chat_id m) larkMessageId now s1
         | None \<Rightarrow> s1)"

definition markOutboundRetry :: "int \<Rightarrow> int \<Rightarrow> string \<Rightarrow> Store \<Rightarrow> Store" where
  "markOutboundRetry now i errorMessage s =
     (let msg = selectOutbound i s;
          n = (case msg of None \<Rightarrow> 0 | Some m \<Rightarrow> retries m) + 1
      in if hasExceededMaxRetries n
         then stmtUpdateOutbound FailedPermanent now n None (Some errorMessage) None None i s
         else
           let backoffMs = calculateBackoff n;
               nextRetryAt = now + backoffMs
           in stmtUpdateOutbound Pending now n (Some nextRetryAt) (Some errorMessage)
                None None i s)"

subsection \<open>Inbound queue, lines 390-483\<close>

definition enqueueInbound :: "int \<Rightarrow> InboundParams \<Rightarrow> Store \<Rightarrow> EnqueueResult \<times> Store" where
  "enqueueInbound now params s =
     (case stmtCheckInboundExists (messageId params) s of
        Some (_, st) \<Rightarrow>
          (\<lparr>enqueued = False, reason = Some ''duplicate'', result_id = None,
            existing = Some st\<rparr>, s)
      | None \<Rightarrow>
          (let ((changes, lastInsertRowid), s') =
                 stmtEnqueueInbound (messageId params) (in_chatId params)
                   (in_sessionKey params) (messageText params) (attachments params)
                   now now now s
           in if changes > 0
              then (\<lparr>enqueued = True, reason = None, result_id = Some lastInsertRowid,
                     existing = None\<rparr>, s')
              else (\<lparr>enqueued = False, reason = Some ''insert_failed'', result_id = None,
                     existing = None\<rparr>, s')))"

definition dequeueInbound :: "int \<Rightarrow> nat \<Rightarrow> Store \<Rightarrow> InboundMessage list \<times> Store" where
  "dequeueInbound now limit s = (stmtDequeueInbound now limit s, s)"

definition markInboundProcessing :: "int \<Rightarrow> int \<Rightarrow> Store \<Rightarrow> Store" where
  "markInboundProcessing now i s = stmtMarkInboundProcessing now i s"

definition markInboundCompleted :: "int \<Rightarrow> int \<Rightarrow> string \<Rightarrow> Store \<Rightarrow> Store" where
  "markInboundCompleted now i responseText s =
     (let msg = selectInbound i s
      in stmtUpdateInbound Completed now
           (case msg of None \<Rightarrow> 0 | Some m \<Rightarrow> retries m)
           None None (Some now) (Some responseText) i s)"

definition markInboundRetry :: "int \<Rightarrow> int \<Rightarrow> string \<Rightarrow> Store \<Rightarrow> Store" where
  "markInboundRetry now i errorMessage s =
     (let msg = selectInbound i s;
          n = (case msg of None \<Rightarrow> 0 | Some m \<Rightarrow> retries m) + 1
      in if hasExceededMaxRetries n
         then stmtUpdateInbound FailedPermanent now n None (Some errorMessage) None None i s
         else
           let backoffMs = calculateBackoff n;
               nextRetryAt = now + backoffMs
           in stmtUpdateInbound Pending now n (Some nextRetryAt) (Some errorMessage)
                None None i s)"

subsection \<open>Maintenance, lines 511-564\<close>

text \<open>
  \<^verbatim>\<open>cleanup\<close> deletes completed rows and sent records created before the cutoff. Its
  last step, \<^verbatim>\<open>cleanupMediaFiles\<close>, touches the file system only and is left out.
\<close>

definition cleanup :: "int \<Rightarrow> Store \<Rightarrow> Store" where
  "cleanup now s =
     (let cutoff = now - MESSAGE_TTL_MS
      in s\<lparr>outbound_queue :=
             filter (\<lambda>r. \<not> (created_at r < cutoff \<and> status r = Completed)) (outbound_queue s),
           inbound_queue :=
             filter (\<lambda>r. \<not> (created_at r < cutoff \<and> status r = Completed)) (inbound_queue s),
           sent_messages :=
             filter (\<lambda>r. \<not> (sent_created_at r < cutoff)) (sent_messages s)\<rparr>)"

text \<open>
  \<^verbatim>\<open>recoverStuck\<close> reads the clock twice: \<open>now0\<close> for the five-minute threshold, then
  \<open>now\<close> for the new \<open>updated_at\<close>.
\<close>

definition recoverStuck :: "int \<Rightarrow> int \<Rightarrow> Store \<Rightarrow> Store" where
  "recoverStuck now0 now s =
     (let fiveMinAgo = now0 - 5 * 60 * 1000
      in s\<lparr>outbound_queue :=
             map (\<lambda>r. if status r = Processing \<and> updated_at r < fiveMinAgo
                       then r\<lparr>status := Pending, updated_at := now\<rparr> else r)
               (outbound_queue s),
           inbound_queue :=
             map (\<lambda>r. if status r = Processing \<and> updated_at r < fiveMinAgo
                       then r\<lparr>status := Pending, updated_at := now\<rparr> else r)
               (inbound_queue s)\<rparr>)"

text \<open>
  What the constructor does to an existing store (lines 83-159): the schema statements
  change no row, then \<^verbatim>\<open>resetStuckMessages\<close>, \<^verbatim>\<open>recoverStuck\<close> and \<^verbatim>\<open>cleanup\<close>
  run, each with its own reading of the clock.
\<close>

definition openStore :: "int \<Rightarrow> int \<Rightarrow> int \<Rightarrow> int \<Rightarrow> Store \<Rightarrow> Store" where
  "openStore t1 t2 t3 t4 s = cleanup t4 (recoverStuck t2 t3 (resetStuckMessages t1 s))"

subsection \<open>The operations as one type\<close>

text \<open>
  The public methods of \<^verbatim>\<open>MessageQueue\<close> that read or write the tables, with their
  arguments, and the store each leaves behind when called at time \<open>now\<close>. It serves to
  state a property of every operation at once. \<^verbatim>\<open>resetStuckMessages\<close> is private and
  runs in the constructor; it is listed with the periodic \<^verbatim>\<open>recoverStuck\<close> as the
  stuck-row recovery.
\<close>

datatype QueueOp =
    EnqueueInbound InboundParams
  | EnqueueOutbound QueueType OutboundParams
  | DequeueInbound nat
  | DequeueOutbound nat
  | MarkInboundProcessing int
  | MarkOutboundProcessing int
  | MarkInboundCompleted int string
  | MarkOutboundCompleted int "string option"
  | MarkInboundRetry int string
  | MarkOutboundRetry int string
  | ResetStuckMessages
  | RecoverStuck
  | Cleanup

fun run_op :: "(string \<Rightarrow> string) \<Rightarrow> int \<Rightarrow> QueueOp \<Rightarrow> Store \<Rightarrow> Store" where
  "run_op h now (EnqueueInbound params) s = snd (enqueueInbound now params s)"
| "run_op h now (EnqueueOutbound qt params) s = snd (enqueueOutbound h now qt params s)"
| "run_op h now (DequeueInbound limit) s = snd (dequeueInbound now limit s)"
| "run_op h now (DequeueOutbound limit) s = snd (dequeueOutbound now limit s)"
| "run_op h now (MarkInboundProcessing i) s = markInboundProcessing now i s"
| "run_op h now (MarkOutboundProcessing i) s = markOutboundProcessing now i s"
| "run_op h now (MarkInboundCompleted i responseText) s = markInboundCompleted now i responseText s"
| "run_op h now (MarkOutboundCompleted i larkMessageId) s =
     markOutboundCompleted now i larkMessageId s"
| "run_op h now (MarkInboundRetry i errorMessage) s = markInboundRetry now i errorMessage s"
| "run_op h now (MarkOutboundRetry i errorMessage) s = markOutboundRetry now i errorMessage s"
| "run_op h now ResetStuckMessages s = resetStuckMessages now s"
| "run_op h now RecoverStuck s = recoverStuck now now s"
| "run_op h now Cleanup s = cleanup now s"

text \<open>The key a mark operation is called with, per table.\<close>

fun inbound_target :: "QueueOp \<Rightarrow> int option" where
  "inbound_target (MarkInboundProcessing i) = Some i"
| "inbound_target (MarkInboundCompleted i _) = Some i"
| "inbound_target (MarkInboundRetry i _) = Some i"
| "inbound_target _ = None"

fun outbound_target :: "QueueOp \<Rightarrow> int option" where
  "outbound_target (MarkOutboundProcessing i) = Some i"
| "outbound_target (MarkOutboundCompleted i _) = Some i"
| "outbound_target (MarkOutboundRetry i _) = Some i"
| "outbound_target _ = None"

text \<open>The two final states of a row.\<close>

definition terminal :: "'a QueueMessage_scheme \<Rightarrow> bool" where
  "terminal r = (status r = Completed \<or> status r = FailedPermanent)"

section \<open>The outbound sender\<close>

subsection \<open>Message-type selection (src/card-builder.ts, lines 182-199)\<close>

datatype MessageType = Skip | Text | Interactive

text \<open>
  \<^verbatim>\<open>text.split('\n')\<close>: the pieces of a string between the occurrences of a separator
  character; the empty string gives one empty piece.
\<close>

fun split_on :: "char \<Rightarrow> string \<Rightarrow> string list" where
  "split_on sep [] = [[]]"
| "split_on sep (c # cs) =
     (if c = sep then [] # split_on sep cs
      else (case split_on sep cs of
              [] \<Rightarrow> [[c]]
            | x # xs \<Rightarrow> (c # x) # xs))"

text \<open>
  The argument is \<^verbatim>\<open>string | null | undefined\<close>: \<open>None\<close> stands for the two absent
  values, and \<^verbatim>\<open>!text\<close> holds for them and for the empty string. \<^verbatim>\<open>text.length\<close>
  counts the code units of the string, here the elements of the list.
\<close>

definition selectMessageType :: "string option \<Rightarrow> MessageType" where
  "selectMessageType text =
     (case text of
        None \<Rightarrow> Skip
      | Some t \<Rightarrow>
          if t = [] \<or> t = ''NO_REPLY'' \<or> t = ''HEARTBEAT_OK'' then Skip
          else if length t < 100 \<and> length (split_on (CHR 0x0A) t) \<le> 2 then Text
          else Interactive)"

subsection \<open>The transport and what the sender does to it\<close>

text \<open>
  \<^verbatim>\<open>client.sendText\<close> and \<^verbatim>\<open>client.sendCard\<close> belong to the chat transport. A call
  either resolves to \<open>{success, messageId?, error?}\<close> or throws an error with a message.
  The transport is outside the program: it is a function from the number of the attempt
  (counted from 1) to the outcome of that attempt's call. What the sender does is
  recorded as a trace of effects: the calls it makes and the sleeps between them. A card
  is recorded by the arguments \<^verbatim>\<open>buildCard\<close> gets.
\<close>

datatype SendResult = Resolved bool "string option" "string option" | Thrown string

type_synonym LarkClient = "nat \<Rightarrow> SendResult"

datatype Effect = SendText string string | SendCard string string "string option" | Sleep int

text \<open>
  What \<^verbatim>\<open>sendToLarkWithRetry\<close> resolves to: \<open>{skipped: true}\<close>,
  \<open>{messageId: result.messageId}\<close> or \<open>{error: lastError}\<close>.
\<close>

datatype SendOutcome = Skipped | Sent "string option" | Failed "string option"

subsection \<open>The non-retryable error codes (dist/src/channel.js, lines 527-535 and 552-553)\<close>

definition NON_RETRYABLE_CODES :: "nat list" where
  "NON_RETRYABLE_CODES = [99991400, 99991401, 230001, 230002, 230006, 230014, 232009]"

text \<open>
  \<^verbatim>\<open>lastError.match(/\b(\d{5,})\b/)\<close>. \<open>\d\<close> is an ASCII digit and a word character is
  an ASCII letter, digit or underscore. A match starts at a digit that no word character
  precedes; the digits are taken greedily, and giving some back would leave a digit
  after the match, where \<open>\b\<close> fails; so the match is a whole run of at least five
  digits that no word character follows, and the first such run is the one returned.
  \<open>match_code prev s\<close> searches \<open>s\<close>, where \<open>prev\<close> says whether the character before
  \<open>s\<close> is a word character.
\<close>

definition is_digit :: "char \<Rightarrow> bool" where
  "is_digit c = (c \<in> set ''0123456789'')"

definition is_word_char :: "char \<Rightarrow> bool" where
  "is_word_char c =
     (c \<in> set ''abcdefghijklmnopqrstuvwxyzABCDEFGHIJKLMNOPQRSTUVWXYZ0123456789_'')"

fun match_code :: "bool \<Rightarrow> string \<Rightarrow> string option" where
  "match_code prev [] = None"
| "match_code prev (c # cs) =
     (if is_digit c \<and> \<not> prev \<and> 5 \<le> length (takeWhile is_digit (c # cs)) \<and>
         (case dropWhile is_digit (c # cs) of [] \<Rightarrow> True | d # _ \<Rightarrow> \<not> is_word_char d)
      then Some (takeWhile is_digit (c # cs))
      else match_code (is_word_char c) cs)"

text \<open>\<^verbatim>\<open>Number(codeMatch[1])\<close> of a string of decimal digits.\<close>

definition Number :: "string \<Rightarrow> nat" where
  "Number ds = foldl (\<lambda>n c. 10 * n + (of_char c - 48)) 0 ds"

definition isNonRetryable :: "string \<Rightarrow> bool" where
  "isNonRetryable lastError =
     (case match_code False lastError of
        None \<Rightarrow> False
      | Some ds \<Rightarrow> Number ds \<in> set NON_RETRYABLE_CODES)"

subsection \<open>Send with retry\<close>

text \<open>
  The loop \<^verbatim>\<open>for (let attempt = 1; attempt <= SEND_MAX_RETRIES; attempt++)\<close> of
  \<^verbatim>\<open>sendToLarkWithRetry\<close>, from the iteration \<open>attempt\<close> on, with the current
  \<^verbatim>\<open>lastError\<close>. The repository holds the function twice, in src/channel.ts (lines
  421-472) and in the built dist/src/channel.js (lines 522-574). The two texts differ in
  one place: after a resolved, unsuccessful call the built file returns
  \<open>{error: lastError}\<close> at once when the error text carries a non-retryable code. The
  parameter \<open>stop\<close> is that test; the source file has none.
\<close>

function send_loop ::
  "(string \<Rightarrow> bool) \<Rightarrow> LarkClient \<Rightarrow> MessageType \<Rightarrow> string \<Rightarrow> string \<Rightarrow> string option
     \<Rightarrow> nat \<Rightarrow> string option \<Rightarrow> SendOutcome \<times> Effect list" where
  "send_loop stop client msgType chat cont sk attempt lastError =
     (if attempt \<le> SEND_MAX_RETRIES
      then
        (let call = (if msgType = Text then SendText chat cont else SendCard chat cont sk);
             pause = (if attempt < SEND_MAX_RETRIES
                      then [Sleep (calculateSendBackoff attempt)] else [])
         in case client attempt of
              Resolved success mid err \<Rightarrow>
                if success then (Sent mid, [call])
                else
                  (let e = (case err of None \<Rightarrow> ''Unknown error'' | Some x \<Rightarrow> x)
                   in if stop e then (Failed (Some e), [call])
                      else
                        (case send_loop stop client msgType chat cont sk (Suc attempt) (Some e) of
                           (r, tr) \<Rightarrow> (r, call # pause @ tr)))
            | Thrown m \<Rightarrow>
                (case send_loop stop client msgType chat cont sk (Suc attempt) (Some m) of
                   (r, tr) \<Rightarrow> (r, call # pause @ tr)))
      else (Failed lastError, []))"
  by pat_completeness auto
termination
  by (relation "measure (\<lambda>(stop, client, msgType, chat, cont, sk, attempt, lastError).
        Suc SEND_MAX_RETRIES - attempt)") auto

declare send_loop.simps [simp del]

text \<open>\<^verbatim>\<open>sendToLarkWithRetry\<close> of src/channel.ts.\<close>

definition sendToLarkWithRetry ::
  "LarkClient \<Rightarrow> string \<Rightarrow> string \<Rightarrow> string option \<Rightarrow> SendOutcome \<times> Effect list" where
  "sendToLarkWithRetry client chat cont sk =
     (let msgType = selectMessageType (Some cont)
      in if msgType = Skip then (Skipped, [])
         else send_loop (\<lambda>e. False) client msgType chat cont sk 1 None)"

text \<open>\<^verbatim>\<open>sendToLarkWithRetry\<close> of dist/src/channel.js.\<close>

definition sendToLarkWithRetry_dist ::
  "LarkClient \<Rightarrow> string \<Rightarrow> string \<Rightarrow> string option \<Rightarrow> SendOutcome \<times> Effect list" where
  "sendToLarkWithRetry_dist client chat cont sk =
     (let msgType = selectMessageType (Some cont)
      in if msgType = Skip then (Skipped, [])
         else send_loop isNonRetryable client msgType chat cont sk 1 None)"

subsection \<open>The queue-level handling of one outbound row\<close>

text \<open>
  The body of the loop of \<^verbatim>\<open>processOutboundQueue\<close> (src/channel.ts lines 196-215,
  the same text in dist/src/channel.js lines 449-467) for one dequeued row \<open>msg\<close>.
  \<open>send\<close> is the file's \<^verbatim>\<open>sendToLark\<close>, an alias of its \<^verbatim>\<open>sendToLarkWithRetry\<close>;
  \<open>tp\<close> and \<open>tc\<close> are the clock readings of the two mark calls. A result that is
  neither skipped nor carries a non-empty message id throws
  \<^verbatim>\<open>new Error(result.error ?? 'Unknown error')\<close>, which the \<^verbatim>\<open>catch\<close> hands to
  \<^verbatim>\<open>markOutboundRetry\<close>. The result is the new store and the effects on the transport.
\<close>

definition processOutboundItem ::
  "(string \<Rightarrow> string \<Rightarrow> string option \<Rightarrow> SendOutcome \<times> Effect list) \<Rightarrow> int \<Rightarrow> int
     \<Rightarrow> OutboundMessage \<Rightarrow> Store \<Rightarrow> Store \<times> Effect list" where
  "processOutboundItem send tp tc msg s =
     (let s1 = markOutboundProcessing tp (row_id msg) s
      in case send (chat_id msg) (content msg) (Some (session_key msg)) of
           (Skipped, tr) \<Rightarrow> (markOutboundCompleted tc (row_id msg) None s1, tr)
         | (Sent (Some m), tr) \<Rightarrow>
             if m \<noteq> [] then (markOutboundCompleted tc (row_id msg) (Some m) s1, tr)
             else (markOutboundRetry tc (row_id msg) ''Unknown error'' s1, tr)
         | (Sent None, tr) \<Rightarrow> (markOutboundRetry tc (row_id msg) ''Unknown error'' s1, tr)
         | (Failed (Some e), tr) \<Rightarrow> (markOutboundRetry tc (row_id msg) e s1, tr)
         | (Failed None, tr) \<Rightarrow> (markOutboundRetry tc (row_id msg) ''Unknown error'' s1, tr))"

text \<open>Reading a trace: which effects are calls to the transport, and how long a sleep is.\<close>

fun is_call :: "Effect \<Rightarrow> bool" where
  "is_call (Sleep ms) = False"
| "is_call (SendText chat txt) = True"
| "is_call (SendCard chat txt sk) = True"

fun sleep_ms :: "Effect \<Rightarrow> int" where
  "sleep_ms (Sleep ms) = ms"
| "sleep_ms (SendText chat txt) = 0"
| "sleep_ms (SendCard chat txt sk) = 0"

section \<open>The dedup conditions as the specification words them\<close>

text \<open>
  ``A pending or processing row with the same (contentHash, chatId) was created within
  the last 10 minutes'' and ``a SentRecord with the same (contentHash, chatId) was
  created within the last 10 minutes'', read as: created less than ten minutes before
  \<open>now\<close>. They are compared below with what \<^const>\<open>enqueueOutbound\<close> computes.
\<close>

definition pending_duplicate :: "string \<Rightarrow> string \<Rightarrow> int \<Rightarrow> Store \<Rightarrow> bool" where
  "pending_duplicate hash chat now s =
     (\<exists>r \<in> set (outbound_queue s). content_hash r = hash \<and> chat_id r = chat \<and>
        now - 10 * 60 * 1000 < created_at r \<and> (status r = Pending \<or> status r = Processing))"

definition recently_sent :: "string \<Rightarrow> string \<Rightarrow> int \<Rightarrow> Store \<Rightarrow> bool" where
  "recently_sent hash chat now s =
     (\<exists>r \<in> set (sent_messages s). sent_content_hash r = hash \<and> sent_chat_id r = chat \<and>
        now - 10 * 60 * 1000 < sent_created_at r)"

section \<open>Example data\<close>

text \<open>A small store the closed instances below are evaluated on.\<close>

definition demo_inbound :: InboundMessage where
  "demo_inbound =
     \<lparr>row_id = 1, status = Pending, retries = 0, next_retry_at = Some 1000,
      created_at = 1000, updated_at = 1000, completed_at = None, last_error = None,
      message_id = ''m1'', in_chat_id = ''c1'', in_session_key = ''s1'',
      message_text = ''hi'', attachments_json = None, response_text = None\<rparr>"

definition demo_outbound :: OutboundMessage where
  "demo_outbound =
     \<lparr>row_id = 1, status = Pending, retries = 0, next_retry_at = Some 1000,
      created_at = 1000, updated_at = 1000, completed_at = None, last_error = None,
      queue_type = Reply, run_id = ''run1'', session_key = ''s1'', chat_id = ''c1'',
      content = ''hi'', content_hash = ''hi'', lark_message_id = None\<rparr>"

definition demo_store :: Store where
  "demo_store =
     \<lparr>outbound_queue = [demo_outbound], outbound_seq = 1,
      inbound_queue = [demo_inbound], inbound_seq = 1,
      sent_messages = [], sent_seq = 0\<rparr>"

definition empty_store :: Store where
  "empty_store =
     \<lparr>outbound_queue = [], outbound_seq = 0, inbound_queue = [], inbound_seq = 0,
      sent_messages = [], sent_seq = 0\<rparr>"

text \<open>
  A store with rows left in \<open>processing\<close> (retries 3 and 5) beside a completed row, and a
  store whose inbound and outbound queues hold rows that are due, not yet due and
  completed.
\<close>

definition stuck_store :: Store where
  "stuck_store =
     \<lparr>outbound_queue = [demo_outbound\<lparr>status := Processing, retries := 5\<rparr>],
      outbound_seq = 1,
      inbound_queue =
        [demo_inbound\<lparr>status := Processing, retries := 3\<rparr>,
         demo_inbound\<lparr>row_id := 2, status := Completed, message_id := ''m2''\<rparr>],
      inbound_seq = 2,
      sent_messages = [], sent_seq = 0\<rparr>"

definition queue_store :: Store where
  "queue_store =
     \<lparr>outbound_queue =
        [demo_outbound\<lparr>created_at := 2000\<rparr>,
         demo_outbound\<lparr>row_id := 2, created_at := 1000, next_retry_at := None,
           content := ''yo'', content_hash := ''yo''\<rparr>],
      outbound_seq = 2,
      inbound_queue =
        [demo_inbound\<lparr>created_at := 2000\<rparr>,
         demo_inbound\<lparr>row_id := 2, created_at := 1000, next_retry_at := None,
           message_id := ''m2''\<rparr>,
         demo_inbound\<lparr>row_id := 3, created_at := 500, next_retry_at := Some 99999,
           message_id := ''m3''\<rparr>,
         demo_inbound\<lparr>row_id := 4, status := Completed, created_at := 100,
           message_id := ''m4''\<rparr>],
      inbound_seq = 4,
      sent_messages = [], sent_seq = 0\<rparr>"

text \<open>Parameter objects for the enqueue operations.\<close>

definition demo_in_params :: InboundParams where
  "demo_in_params =
     \<lparr>messageId = ''m1'', in_chatId = ''c1'', in_sessionKey = ''s1'', messageText = ''hi'',
      attachments = None\<rparr>"

definition demo_out_params :: OutboundParams where
  "demo_out_params =
     \<lparr>runId = None, sessionKey = ''s'', chatId = ''c1'', p_content = ''hi''\<rparr>"

text \<open>A store whose rows have reached a final state.\<close>

definition done_store :: Store where
  "done_store =
     \<lparr>outbound_queue =
        [demo_outbound\<lparr>status := Completed, completed_at := Some 1500,
           lark_message_id := Some ''om_1''\<rparr>],
      outbound_seq = 1,
      inbound_queue =
        [demo_inbound\<lparr>status := Completed, completed_at := Some 1500,
           response_text := Some ''delivered''\<rparr>,
         demo_inbound\<lparr>row_id := 2, status := FailedPermanent, retries := 120,
           next_retry_at := None, last_error := Some ''Gateway timeout'',
           message_id := ''m2''\<rparr>],
      inbound_seq = 2,
      sent_messages = [], sent_seq = 0\<rparr>"

text \<open>
  A transport that rejects every call with the platform's code for a missing permission,
  and a text of three paragraphs.
\<close>

definition denied :: string where
  "denied = ''Lark API error 230001: no permission''"

definition denying_client :: LarkClient where
  "denying_client = (\<lambda>attempt. Resolved False None (Some denied))"

definition three_paragraphs :: string where
  "three_paragraphs =
     ''Summary of the run.'' @ [CHR 0x0A, CHR 0x0A] @ ''Findings follow.'' @
     [CHR 0x0A, CHR 0x0A] @ ''Done.''"

section \<open>Theorems\<close>

subsection \<open>Backoff\<close>

lemma calculateSendBackoff_is_spec:
  "calculateSendBackoff n = spec_backoff n"
  by (simp add: calculateSendBackoff_def spec_backoff_def SEND_RETRY_BASE_MS_def
      SEND_RETRY_MAX_MS_def)

lemma calculateBackoff_is_spec_shifted:
  "calculateBackoff n = spec_backoff (Suc n)"
  by (simp add: calculateBackoff_def spec_backoff_def RETRY_BACKOFF_BASE_MS_def
      RETRY_BACKOFF_MAX_MS_def)

lemma backoffs_agree_iff:
  assumes "1 \<le> n"
  shows "(calculateBackoff n = calculateSendBackoff n) = (14 \<le> n)"
proof (cases "14 \<le> n")
  case True
  then have "min n 17 \<ge> 14" and "min (n - 1) 17 \<ge> 13"
    by simp_all
  then have a: "(2::int) ^ 14 \<le> 2 ^ min n 17" and b: "(2::int) ^ 13 \<le> 2 ^ min (n - 1) 17"
    by (simp_all only: power_increasing_iff [of "2::int"] one_less_numeral_iff
        semiring_norm)
  from a b True show ?thesis
    by (simp add: calculateBackoff_def calculateSendBackoff_def RETRY_BACKOFF_BASE_MS_def
        RETRY_BACKOFF_MAX_MS_def SEND_RETRY_BASE_MS_def SEND_RETRY_MAX_MS_def min_def
        Let_def)
next
  case False
  with assms have "n \<in> {1, 2, 3, 4, 5, 6, 7, 8, 9, 10, 11, 12, 13}"
    by simp arith
  then show ?thesis
    by (auto simp: calculateBackoff_def calculateSendBackoff_def RETRY_BACKOFF_BASE_MS_def
        RETRY_BACKOFF_MAX_MS_def SEND_RETRY_BASE_MS_def SEND_RETRY_MAX_MS_def)
qed

text \<open>
  Claim C1. For every retry count \<open>n \<ge> 1\<close> the queue-level backoff of
  \<^verbatim>\<open>markRetry\<close> and the transport-level backoff between send attempts are the same
  function, \<open>min(1000 * 2^min(n-1, 17), 120*60*1000)\<close> milliseconds.

  The transport-level \<^const>\<open>calculateSendBackoff\<close> is that function
  (\<open>calculateSendBackoff_is_spec\<close>). The queue-level \<^const>\<open>calculateBackoff\<close> takes
  the exponent \<open>min(n, 17)\<close>, one more, although its own comment lists the delays as
  ``1s, 2s, 4s, 8s, ...'': at the first retry \<^verbatim>\<open>markRetry\<close> calls it with \<open>n = 1\<close>
  and the delay is 2000 ms where the claim, the comment and the transport level give
  1000 ms. The theorem evaluates the three functions there and at \<open>n = 13\<close>, the last
  count at which the two levels differ.
\<close>

theorem C1_queue_backoff_is_one_step_ahead:
  "calculateBackoff 1 = 2000 \<and> calculateSendBackoff 1 = 1000 \<and> spec_backoff 1 = 1000 \<and>
   calculateBackoff 13 = 7200000 \<and> calculateSendBackoff 13 = 4096000 \<and>
   spec_backoff 13 = 4096000"
  by (simp add: calculateBackoff_def calculateSendBackoff_def spec_backoff_def
      RETRY_BACKOFF_BASE_MS_def RETRY_BACKOFF_MAX_MS_def SEND_RETRY_BASE_MS_def
      SEND_RETRY_MAX_MS_def)

subsection \<open>Updates by key\<close>

lemma map_upd_absent:
  "i \<notin> row_id ` set rows \<Longrightarrow> map (\<lambda>r. if row_id r = i then f r else r) rows = rows"
  by (induction rows) auto

lemma find_id_map_upd:
  assumes "\<And>r. row_id (f r) = row_id r"
  shows "find (\<lambda>r. row_id r = i) (map (\<lambda>r. if row_id r = j then f r else r) rows) =
         map_option (\<lambda>r. if row_id r = j then f r else r) (find (\<lambda>r. row_id r = i) rows)"
  using assms by (induction rows) auto

lemma find_id_None: "(find (\<lambda>r. row_id r = i) rows = None) = (i \<notin> row_id ` set rows)"
  by (induction rows) auto

lemma selectInbound_id: "selectInbound i s = Some r \<Longrightarrow> row_id r = i"
  by (auto simp: selectInbound_def find_Some_iff)

lemma selectOutbound_id: "selectOutbound i s = Some r \<Longrightarrow> row_id r = i"
  by (auto simp: selectOutbound_def find_Some_iff)

lemma selectInbound_mem: "selectInbound i s = Some r \<Longrightarrow> r \<in> set (inbound_queue s)"
  by (auto simp: selectInbound_def find_Some_iff)

lemma selectOutbound_mem: "selectOutbound i s = Some r \<Longrightarrow> r \<in> set (outbound_queue s)"
  by (auto simp: selectOutbound_def find_Some_iff)

subsection \<open>A mark operation on a key that is not in the table\<close>

lemma markInboundProcessing_absent:
  "i \<notin> row_id ` set (inbound_queue s) \<Longrightarrow> markInboundProcessing now i s = s"
  by (simp add: markInboundProcessing_def stmtMarkInboundProcessing_def map_upd_absent)

lemma markInboundCompleted_absent:
  "i \<notin> row_id ` set (inbound_queue s) \<Longrightarrow> markInboundCompleted now i resp s = s"
  by (simp add: markInboundCompleted_def stmtUpdateInbound_def map_upd_absent Let_def)

lemma markInboundRetry_absent:
  "i \<notin> row_id ` set (inbound_queue s) \<Longrightarrow> markInboundRetry now i err s = s"
  by (simp add: markInboundRetry_def stmtUpdateInbound_def map_upd_absent Let_def)

lemma markOutboundProcessing_absent:
  "i \<notin> row_id ` set (outbound_queue s) \<Longrightarrow> markOutboundProcessing now i s = s"
  by (simp add: markOutboundProcessing_def stmtMarkOutboundProcessing_def map_upd_absent)

lemma markOutboundCompleted_absent:
  "i \<notin> row_id ` set (outbound_queue s) \<Longrightarrow> markOutboundCompleted now i lark s = s"
  by (simp add: markOutboundCompleted_def stmtUpdateOutbound_def map_upd_absent Let_def
      selectOutbound_def find_id_None [THEN iffD2])

lemma markOutboundRetry_absent:
  "i \<notin> row_id ` set (outbound_queue s) \<Longrightarrow> markOutboundRetry now i err s = s"
  by (simp add: markOutboundRetry_def stmtUpdateOutbound_def map_upd_absent Let_def)

text \<open>
  Claim C10. For every id that is not a key of the corresponding queue table, each of
  \<^verbatim>\<open>markInboundProcessing\<close>, \<^verbatim>\<open>markOutboundProcessing\<close>,
  \<^verbatim>\<open>markInboundCompleted\<close>, \<^verbatim>\<open>markOutboundCompleted\<close>, \<^verbatim>\<open>markInboundRetry\<close>
  and \<^verbatim>\<open>markOutboundRetry\<close> returns the store it was given: no row of any table
  changes, no sequence value moves, and \<^verbatim>\<open>markOutboundCompleted\<close> appends no sent
  record.
\<close>

theorem C10_mark_on_missing_id_changes_nothing:
  assumes "i \<notin> row_id ` set (inbound_queue s)" and "j \<notin> row_id ` set (outbound_queue s)"
  shows "markInboundProcessing now i s = s \<and>
         markInboundCompleted now i resp s = s \<and>
         markInboundRetry now i err s = s \<and>
         markOutboundProcessing now j s = s \<and>
         markOutboundCompleted now j lark s = s \<and>
         sent_messages (markOutboundCompleted now j lark s) = sent_messages s \<and>
         markOutboundRetry now j err s = s"
  using assms
  by (simp add: markInboundProcessing_absent markInboundCompleted_absent
      markInboundRetry_absent markOutboundProcessing_absent markOutboundCompleted_absent
      markOutboundRetry_absent)

theorem C10_witness:
  "7 \<notin> row_id ` set (inbound_queue demo_store) \<and>
   9 \<notin> row_id ` set (outbound_queue demo_store) \<and>
   markInboundProcessing 5000 7 demo_store = demo_store \<and>
   markInboundCompleted 5000 7 ''resp'' demo_store = demo_store \<and>
   markInboundRetry 5000 7 ''boom'' demo_store = demo_store \<and>
   markOutboundProcessing 5000 9 demo_store = demo_store \<and>
   markOutboundCompleted 5000 9 (Some ''om_1'') demo_store = demo_store \<and>
   sent_messages (markOutboundCompleted 5000 9 (Some ''om_1'') demo_store) = [] \<and>
   markOutboundRetry 5000 9 ''boom'' demo_store = demo_store"
proof -
  have a: "7 \<notin> row_id ` set (inbound_queue demo_store)"
    by (simp add: demo_store_def demo_inbound_def)
  have b: "9 \<notin> row_id ` set (outbound_queue demo_store)"
    by (simp add: demo_store_def demo_outbound_def)
  have c: "sent_messages demo_store = []"
    by (simp add: demo_store_def)
  from C10_mark_on_missing_id_changes_nothing [OF a b, of 5000 "''resp''" "''boom''"
      "Some ''om_1''"] a b c
  show ?thesis by simp
qed

subsection \<open>Retry exhaustion\<close>

lemma calculateBackoff_pos: "0 < calculateBackoff n"
  by (simp add: calculateBackoff_def RETRY_BACKOFF_BASE_MS_def RETRY_BACKOFF_MAX_MS_def
      Let_def min_def)

lemma selectInbound_markInboundRetry:
  assumes "selectInbound i s = Some r"
  shows "selectInbound i (markInboundRetry now i err s) =
         Some (if hasExceededMaxRetries (retries r + 1)
               then r\<lparr>status := FailedPermanent, updated_at := now, retries := retries r + 1,
                      next_retry_at := None, last_error := Some err, completed_at := None,
                      response_text := None\<rparr>
               else r\<lparr>status := Pending, updated_at := now, retries := retries r + 1,
                      next_retry_at := Some (now + calculateBackoff (retries r + 1)),
                      last_error := Some err, completed_at := None, response_text := None\<rparr>)"
proof -
  from assms have "row_id r = i"
    by (rule selectInbound_id)
  with assms show ?thesis
    by (simp add: selectInbound_def markInboundRetry_def stmtUpdateInbound_def Let_def
        find_id_map_upd)
qed

lemma ids_markInboundRetry:
  "map row_id (inbound_queue (markInboundRetry now i err s)) = map row_id (inbound_queue s)"
  by (simp add: markInboundRetry_def stmtUpdateInbound_def Let_def comp_def)

lemma ids_fold_markInboundRetry:
  "map row_id (inbound_queue (fold (\<lambda>c. markInboundRetry (fst c) i (snd c)) calls s)) =
   map row_id (inbound_queue s)"
  by (induction calls arbitrary: s) (simp_all add: ids_markInboundRetry)

lemma inbound_retries_pending:
  assumes "selectInbound i s = Some r" and "retries r + length calls < MAX_RETRIES"
    and "calls \<noteq> []"
  shows "\<exists>r'. selectInbound i (fold (\<lambda>c. markInboundRetry (fst c) i (snd c)) calls s) = Some r' \<and>
           status r' = Pending \<and> retries r' = retries r + length calls \<and>
           next_retry_at r' =
             Some (fst (last calls) + calculateBackoff (retries r + length calls))"
  using assms
proof (induction calls arbitrary: s r)
  case Nil
  then show ?case by simp
next
  case (Cons c cs)
  let ?s1 = "markInboundRetry (fst c) i (snd c) s"
  let ?r1 = "r\<lparr>status := Pending, updated_at := fst c, retries := retries r + 1,
                next_retry_at := Some (fst c + calculateBackoff (retries r + 1)),
                last_error := Some (snd c), completed_at := None, response_text := None\<rparr>"
  from Cons.prems have sel: "selectInbound i ?s1 = Some ?r1"
    by (simp add: selectInbound_markInboundRetry hasExceededMaxRetries_def)
  show ?case
  proof (cases "cs = []")
    case True
    with sel show ?thesis by simp
  next
    case False
    from Cons.prems have "retries ?r1 + length cs < MAX_RETRIES" by simp
    from Cons.IH [OF sel this False] False show ?thesis by simp
  qed
qed

lemma inbound_retries_exhausted:
  assumes "selectInbound i s = Some r" and "retries r = 0" and "length calls = MAX_RETRIES"
  shows "\<exists>r'. selectInbound i (fold (\<lambda>c. markInboundRetry (fst c) i (snd c)) calls s) = Some r' \<and>
           status r' = FailedPermanent \<and> retries r' = MAX_RETRIES \<and> next_retry_at r' = None"
proof -
  from assms(3) have "calls \<noteq> []" by (auto simp: MAX_RETRIES_def)
  then obtain cs c where calls: "calls = cs @ [c]"
    by (metis rev_exhaust)
  with assms(3) have len: "length cs = MAX_RETRIES - 1" and cs: "cs \<noteq> []"
    by (auto simp: MAX_RETRIES_def)
  from len assms(2) have "retries r + length cs < MAX_RETRIES"
    by (simp add: MAX_RETRIES_def)
  from inbound_retries_pending [OF assms(1) this cs]
  obtain r1 where r1:
    "selectInbound i (fold (\<lambda>c. markInboundRetry (fst c) i (snd c)) cs s) = Some r1"
    "retries r1 = retries r + length cs" by blast
  with len assms(2) have "hasExceededMaxRetries (retries r1 + 1)" "retries r1 + 1 = MAX_RETRIES"
    by (simp_all add: hasExceededMaxRetries_def MAX_RETRIES_def)
  with r1(1) show ?thesis
    by (simp add: calls selectInbound_markInboundRetry)
qed

lemma inbound_retries_last_but_one:
  assumes "selectInbound i s = Some r" and "retries r = 0" and "length calls = 120"
  shows "\<exists>r'. selectInbound i
                (fold (\<lambda>c. markInboundRetry (fst c) i (snd c)) (take 119 calls) s) = Some r' \<and>
           status r' = Pending \<and> retries r' = 119 \<and>
           next_retry_at r' = Some (fst (calls ! 118) + calculateBackoff 119)"
proof -
  from assms(3) have ne: "take 119 calls \<noteq> []" by auto
  from ne assms(3) have last: "last (take 119 calls) = calls ! 118"
    by (simp add: last_conv_nth)
  from assms have "retries r + length (take 119 calls) < MAX_RETRIES"
    by (simp add: MAX_RETRIES_def)
  from inbound_retries_pending [OF assms(1) this ne] assms(2,3) last show ?thesis
    by simp
qed

lemma selectOutbound_markOutboundRetry:
  assumes "selectOutbound i s = Some r"
  shows "selectOutbound i (markOutboundRetry now i err s) =
         Some (if hasExceededMaxRetries (retries r + 1)
               then r\<lparr>status := FailedPermanent, updated_at := now, retries := retries r + 1,
                      next_retry_at := None, last_error := Some err, completed_at := None,
                      lark_message_id := None\<rparr>
               else r\<lparr>status := Pending, updated_at := now, retries := retries r + 1,
                      next_retry_at := Some (now + calculateBackoff (retries r + 1)),
                      last_error := Some err, completed_at := None, lark_message_id := None\<rparr>)"
proof -
  from assms have "row_id r = i"
    by (rule selectOutbound_id)
  with assms show ?thesis
    by (simp add: selectOutbound_def markOutboundRetry_def stmtUpdateOutbound_def Let_def
        find_id_map_upd)
qed

lemma ids_markOutboundRetry:
  "map row_id (outbound_queue (markOutboundRetry now i err s)) = map row_id (outbound_queue s)"
  by (simp add: markOutboundRetry_def stmtUpdateOutbound_def Let_def comp_def)

lemma ids_fold_markOutboundRetry:
  "map row_id (outbound_queue (fold (\<lambda>c. markOutboundRetry (fst c) i (snd c)) calls s)) =
   map row_id (outbound_queue s)"
  by (induction calls arbitrary: s) (simp_all add: ids_markOutboundRetry)

lemma outbound_retries_pending:
  assumes "selectOutbound i s = Some r" and "retries r + length calls < MAX_RETRIES"
    and "calls \<noteq> []"
  shows "\<exists>r'. selectOutbound i (fold (\<lambda>c. markOutboundRetry (fst c) i (snd c)) calls s) = Some r' \<and>
           status r' = Pending \<and> retries r' = retries r + length calls \<and>
           next_retry_at r' =
             Some (fst (last calls) + calculateBackoff (retries r + length calls))"
  using assms
proof (induction calls arbitrary: s r)
  case Nil
  then show ?case by simp
next
  case (Cons c cs)
  let ?s1 = "markOutboundRetry (fst c) i (snd c) s"
  let ?r1 = "r\<lparr>status := Pending, updated_at := fst c, retries := retries r + 1,
                next_retry_at := Some (fst c + calculateBackoff (retries r + 1)),
                last_error := Some (snd c), completed_at := None, lark_message_id := None\<rparr>"
  from Cons.prems have sel: "selectOutbound i ?s1 = Some ?r1"
    by (simp add: selectOutbound_markOutboundRetry hasExceededMaxRetries_def)
  show ?case
  proof (cases "cs = []")
    case True
    with sel show ?thesis by simp
  next
    case False
    from Cons.prems have "retries ?r1 + length cs < MAX_RETRIES" by simp
    from Cons.IH [OF sel this False] False show ?thesis by simp
  qed
qed

lemma outbound_retries_exhausted:
  assumes "selectOutbound i s = Some r" and "retries r = 0" and "length calls = MAX_RETRIES"
  shows "\<exists>r'. selectOutbound i (fold (\<lambda>c. markOutboundRetry (fst c) i (snd c)) calls s) = Some r' \<and>
           status r' = FailedPermanent \<and> retries r' = MAX_RETRIES \<and> next_retry_at r' = None"
proof -
  from assms(3) have "calls \<noteq> []" by (auto simp: MAX_RETRIES_def)
  then obtain cs c where calls: "calls = cs @ [c]"
    by (metis rev_exhaust)
  with assms(3) have len: "length cs = MAX_RETRIES - 1" and cs: "cs \<noteq> []"
    by (auto simp: MAX_RETRIES_def)
  from len assms(2) have "retries r + length cs < MAX_RETRIES"
    by (simp add: MAX_RETRIES_def)
  from outbound_retries_pending [OF assms(1) this cs]
  obtain r1 where r1:
    "selectOutbound i (fold (\<lambda>c. markOutboundRetry (fst c) i (snd c)) cs s) = Some r1"
    "retries r1 = retries r + length cs" by blast
  with len assms(2) have "hasExceededMaxRetries (retries r1 + 1)" "retries r1 + 1 = MAX_RETRIES"
    by (simp_all add: hasExceededMaxRetries_def MAX_RETRIES_def)
  with r1(1) show ?thesis
    by (simp add: calls selectOutbound_markOutboundRetry)
qed

lemma outbound_retries_last_but_one:
  assumes "selectOutbound i s = Some r" and "retries r = 0" and "length calls = 120"
  shows "\<exists>r'. selectOutbound i
                (fold (\<lambda>c. markOutboundRetry (fst c) i (snd c)) (take 119 calls) s) = Some r' \<and>
           status r' = Pending \<and> retries r' = 119 \<and>
           next_retry_at r' = Some (fst (calls ! 118) + calculateBackoff 119)"
proof -
  from assms(3) have ne: "take 119 calls \<noteq> []" by auto
  from ne assms(3) have last: "last (take 119 calls) = calls ! 118"
    by (simp add: last_conv_nth)
  from assms have "retries r + length (take 119 calls) < MAX_RETRIES"
    by (simp add: MAX_RETRIES_def)
  from outbound_retries_pending [OF assms(1) this ne] assms(2,3) last show ?thesis
    by simp
qed

text \<open>
  Claim C3. For a row that starts at \<open>retries = 0\<close>, 120 (\<open>MAX_RETRIES\<close>) consecutive
  \<^verbatim>\<open>markRetry\<close> calls on it, at any times and with any error texts, leave it
  \<open>failed_permanent\<close> with \<open>retries = 120\<close>, still in the table (the keys of the table
  are the same as before); after the 119th call it is \<open>pending\<close> with \<open>retries = 119\<close>
  and \<open>next_retry_at\<close> equal to the time of that call plus the backoff, strictly later
  than the call. The first conjunct is \<^verbatim>\<open>markInboundRetry\<close>, the second
  \<^verbatim>\<open>markOutboundRetry\<close>. A call is the pair of its clock reading and its error text.
\<close>

theorem C3_retry_exhaustion_after_120_calls:
  "(selectInbound i s = Some ri \<and> retries ri = 0 \<and> length calls = 120 \<longrightarrow>
      (\<exists>r'. selectInbound i
               (fold (\<lambda>c. markInboundRetry (fst c) i (snd c)) (take 119 calls) s) = Some r' \<and>
            status r' = Pending \<and> retries r' = 119 \<and>
            next_retry_at r' = Some (fst (calls ! 118) + calculateBackoff 119) \<and>
            fst (calls ! 118) < fst (calls ! 118) + calculateBackoff 119) \<and>
      (\<exists>r'. selectInbound i (fold (\<lambda>c. markInboundRetry (fst c) i (snd c)) calls s) = Some r' \<and>
            status r' = FailedPermanent \<and> retries r' = 120) \<and>
      map row_id (inbound_queue (fold (\<lambda>c. markInboundRetry (fst c) i (snd c)) calls s)) =
        map row_id (inbound_queue s)) \<and>
   (selectOutbound j s = Some ro \<and> retries ro = 0 \<and> length calls = 120 \<longrightarrow>
      (\<exists>r'. selectOutbound j
               (fold (\<lambda>c. markOutboundRetry (fst c) j (snd c)) (take 119 calls) s) = Some r' \<and>
            status r' = Pending \<and> retries r' = 119 \<and>
            next_retry_at r' = Some (fst (calls ! 118) + calculateBackoff 119) \<and>
            fst (calls ! 118) < fst (calls ! 118) + calculateBackoff 119) \<and>
      (\<exists>r'. selectOutbound j (fold (\<lambda>c. markOutboundRetry (fst c) j (snd c)) calls s) = Some r' \<and>
            status r' = FailedPermanent \<and> retries r' = 120) \<and>
      map row_id (outbound_queue (fold (\<lambda>c. markOutboundRetry (fst c) j (snd c)) calls s)) =
        map row_id (outbound_queue s))"
proof (intro conjI impI)
  assume a: "selectInbound i s = Some ri \<and> retries ri = 0 \<and> length calls = 120"
  from a inbound_retries_last_but_one [of i s ri calls] calculateBackoff_pos [of 119]
  show "\<exists>r'. selectInbound i
               (fold (\<lambda>c. markInboundRetry (fst c) i (snd c)) (take 119 calls) s) = Some r' \<and>
            status r' = Pending \<and> retries r' = 119 \<and>
            next_retry_at r' = Some (fst (calls ! 118) + calculateBackoff 119) \<and>
            fst (calls ! 118) < fst (calls ! 118) + calculateBackoff 119"
    by auto
  from a inbound_retries_exhausted [of i s ri calls]
  show "\<exists>r'. selectInbound i (fold (\<lambda>c. markInboundRetry (fst c) i (snd c)) calls s) = Some r' \<and>
            status r' = FailedPermanent \<and> retries r' = 120"
    by (auto simp: MAX_RETRIES_def)
  show "map row_id (inbound_queue (fold (\<lambda>c. markInboundRetry (fst c) i (snd c)) calls s)) =
        map row_id (inbound_queue s)"
    by (rule ids_fold_markInboundRetry)
next
  assume a: "selectOutbound j s = Some ro \<and> retries ro = 0 \<and> length calls = 120"
  from a outbound_retries_last_but_one [of j s ro calls] calculateBackoff_pos [of 119]
  show "\<exists>r'. selectOutbound j
               (fold (\<lambda>c. markOutboundRetry (fst c) j (snd c)) (take 119 calls) s) = Some r' \<and>
            status r' = Pending \<and> retries r' = 119 \<and>
            next_retry_at r' = Some (fst (calls ! 118) + calculateBackoff 119) \<and>
            fst (calls ! 118) < fst (calls ! 118) + calculateBackoff 119"
    by auto
  from a outbound_retries_exhausted [of j s ro calls]
  show "\<exists>r'. selectOutbound j (fold (\<lambda>c. markOutboundRetry (fst c) j (snd c)) calls s) = Some r' \<and>
            status r' = FailedPermanent \<and> retries r' = 120"
    by (auto simp: MAX_RETRIES_def)
  show "map row_id (outbound_queue (fold (\<lambda>c. markOutboundRetry (fst c) j (snd c)) calls s)) =
        map row_id (outbound_queue s)"
    by (rule ids_fold_markOutboundRetry)
qed

theorem C3_witness:
  "selectInbound 1 demo_store = Some demo_inbound \<and> retries demo_inbound = 0 \<and>
   selectOutbound 1 demo_store = Some demo_outbound \<and> retries demo_outbound = 0 \<and>
   length (replicate 120 (5000::int, ''boom'')) = 120 \<and>
   (\<exists>r'. selectInbound 1
           (fold (\<lambda>c. markInboundRetry (fst c) 1 (snd c))
              (take 119 (replicate 120 (5000, ''boom''))) demo_store) = Some r' \<and>
         status r' = Pending \<and> retries r' = 119 \<and>
         next_retry_at r' =
           Some (fst (replicate 120 (5000, ''boom'') ! 118) + calculateBackoff 119) \<and>
         fst (replicate 120 (5000::int, ''boom'') ! 118) <
           fst (replicate 120 (5000, ''boom'') ! 118) + calculateBackoff 119) \<and>
   (\<exists>r'. selectInbound 1
           (fold (\<lambda>c. markInboundRetry (fst c) 1 (snd c)) (replicate 120 (5000, ''boom''))
              demo_store) = Some r' \<and>
         status r' = FailedPermanent \<and> retries r' = 120) \<and>
   (\<exists>r'. selectOutbound 1
           (fold (\<lambda>c. markOutboundRetry (fst c) 1 (snd c)) (replicate 120 (5000, ''boom''))
              demo_store) = Some r' \<and>
         status r' = FailedPermanent \<and> retries r' = 120)"
proof -
  have a: "selectInbound 1 demo_store = Some demo_inbound"
    by (simp add: selectInbound_def demo_store_def demo_inbound_def)
  have b: "retries demo_inbound = 0"
    by (simp add: demo_inbound_def)
  have c: "selectOutbound 1 demo_store = Some demo_outbound"
    by (simp add: selectOutbound_def demo_store_def demo_outbound_def)
  have d: "retries demo_outbound = 0"
    by (simp add: demo_outbound_def)
  have e: "length (replicate 120 (5000::int, ''boom'')) = 120"
    by simp
  from C3_retry_exhaustion_after_120_calls
    [of 1 demo_store demo_inbound "replicate 120 (5000, ''boom'')" 1 demo_outbound]
    a b c d e
  show ?thesis by blast
qed

subsection \<open>Startup reset\<close>

lemma resetStuckMessages_inbound:
  "inbound_queue (resetStuckMessages now s) =
   map (\<lambda>r. if status r = Processing then r\<lparr>status := Pending, updated_at := now\<rparr> else r)
     (inbound_queue s)"
  by (simp add: resetStuckMessages_def Let_def)

lemma resetStuckMessages_outbound:
  "outbound_queue (resetStuckMessages now s) =
   map (\<lambda>r. if status r = Processing then r\<lparr>status := Pending, updated_at := now\<rparr> else r)
     (outbound_queue s)"
  by (simp add: resetStuckMessages_def Let_def)

lemma resetStuckMessages_rest:
  "sent_messages (resetStuckMessages now s) = sent_messages s \<and>
   sent_seq (resetStuckMessages now s) = sent_seq s \<and>
   inbound_seq (resetStuckMessages now s) = inbound_seq s \<and>
   outbound_seq (resetStuckMessages now s) = outbound_seq s"
  by (simp add: resetStuckMessages_def Let_def)

lemma map_recover_idle:
  "\<forall>r \<in> set rows. status r \<noteq> Processing \<Longrightarrow>
   map (\<lambda>r. if status r = Processing \<and> updated_at r < c then f r else r) rows = rows"
  by (induction rows) auto

lemma recoverStuck_idle:
  assumes "\<forall>r \<in> set (inbound_queue s). status r \<noteq> Processing"
    and "\<forall>r \<in> set (outbound_queue s). status r \<noteq> Processing"
  shows "recoverStuck now0 now s = s"
  using assms by (simp add: recoverStuck_def Let_def map_recover_idle)

lemma no_processing_after_reset:
  "(\<forall>r \<in> set (inbound_queue (resetStuckMessages now s)). status r \<noteq> Processing) \<and>
   (\<forall>r \<in> set (outbound_queue (resetStuckMessages now s)). status r \<noteq> Processing)"
  by (auto simp: resetStuckMessages_inbound resetStuckMessages_outbound)

lemma openStore_eq: "openStore t1 t2 t3 t4 s = cleanup t4 (resetStuckMessages t1 s)"
  using no_processing_after_reset [of t1 s]
  by (simp add: openStore_def recoverStuck_idle)

text \<open>
  Claim C7. On store open the reset turns every inbound and outbound row whose status is
  \<open>processing\<close> into \<open>pending\<close>, whatever its \<open>updated_at\<close>, and changes nothing else
  of the row but \<open>updated_at\<close> (in particular not \<open>retries\<close>); a row in any other
  status is the same row afterwards, and the sent ledger is untouched. For the whole
  constructor: every row that was \<open>processing\<close> is in the opened store as that
  \<open>pending\<close> row, and no row of the opened store is \<open>processing\<close>.
\<close>

theorem C7_processing_rows_reset_on_open:
  "length (inbound_queue (resetStuckMessages now s)) = length (inbound_queue s) \<and>
   length (outbound_queue (resetStuckMessages now s)) = length (outbound_queue s) \<and>
   (\<forall>k < length (inbound_queue s).
      inbound_queue (resetStuckMessages now s) ! k =
        (if status (inbound_queue s ! k) = Processing
         then (inbound_queue s ! k)\<lparr>status := Pending, updated_at := now\<rparr>
         else inbound_queue s ! k) \<and>
      retries (inbound_queue (resetStuckMessages now s) ! k) = retries (inbound_queue s ! k)) \<and>
   (\<forall>k < length (outbound_queue s).
      outbound_queue (resetStuckMessages now s) ! k =
        (if status (outbound_queue s ! k) = Processing
         then (outbound_queue s ! k)\<lparr>status := Pending, updated_at := now\<rparr>
         else outbound_queue s ! k) \<and>
      retries (outbound_queue (resetStuckMessages now s) ! k) = retries (outbound_queue s ! k)) \<and>
   sent_messages (resetStuckMessages now s) = sent_messages s \<and>
   (\<forall>r \<in> set (inbound_queue s). status r = Processing \<longrightarrow>
      r\<lparr>status := Pending, updated_at := t1\<rparr> \<in> set (inbound_queue (openStore t1 t2 t3 t4 s))) \<and>
   (\<forall>r \<in> set (outbound_queue s). status r = Processing \<longrightarrow>
      r\<lparr>status := Pending, updated_at := t1\<rparr> \<in> set (outbound_queue (openStore t1 t2 t3 t4 s))) \<and>
   (\<forall>r \<in> set (inbound_queue (openStore t1 t2 t3 t4 s)). status r \<noteq> Processing) \<and>
   (\<forall>r \<in> set (outbound_queue (openStore t1 t2 t3 t4 s)). status r \<noteq> Processing)"
proof (intro conjI)
  show "\<forall>r \<in> set (inbound_queue s). status r = Processing \<longrightarrow>
      r\<lparr>status := Pending, updated_at := t1\<rparr> \<in> set (inbound_queue (openStore t1 t2 t3 t4 s))"
    by (force simp: openStore_eq cleanup_def Let_def resetStuckMessages_inbound)
  show "\<forall>r \<in> set (outbound_queue s). status r = Processing \<longrightarrow>
      r\<lparr>status := Pending, updated_at := t1\<rparr> \<in> set (outbound_queue (openStore t1 t2 t3 t4 s))"
    by (force simp: openStore_eq cleanup_def Let_def resetStuckMessages_outbound)
  show "\<forall>r \<in> set (inbound_queue (openStore t1 t2 t3 t4 s)). status r \<noteq> Processing"
    by (auto simp: openStore_eq cleanup_def Let_def resetStuckMessages_inbound)
  show "\<forall>r \<in> set (outbound_queue (openStore t1 t2 t3 t4 s)). status r \<noteq> Processing"
    by (auto simp: openStore_eq cleanup_def Let_def resetStuckMessages_outbound)
qed (simp_all add: resetStuckMessages_inbound resetStuckMessages_outbound
    resetStuckMessages_rest)

theorem C7_witness:
  "0 < length (inbound_queue stuck_store) \<and>
   status (inbound_queue stuck_store ! 0) = Processing \<and>
   retries (inbound_queue stuck_store ! 0) = 3 \<and>
   inbound_queue (resetStuckMessages 9000 stuck_store) ! 0 =
     demo_inbound\<lparr>status := Pending, retries := 3, updated_at := 9000\<rparr> \<and>
   retries (inbound_queue (resetStuckMessages 9000 stuck_store) ! 0) = 3 \<and>
   1 < length (inbound_queue stuck_store) \<and>
   status (inbound_queue stuck_store ! 1) = Completed \<and>
   inbound_queue (resetStuckMessages 9000 stuck_store) ! 1 = inbound_queue stuck_store ! 1 \<and>
   0 < length (outbound_queue stuck_store) \<and>
   status (outbound_queue stuck_store ! 0) = Processing \<and>
   outbound_queue (resetStuckMessages 9000 stuck_store) ! 0 =
     demo_outbound\<lparr>status := Pending, retries := 5, updated_at := 9000\<rparr> \<and>
   demo_inbound\<lparr>status := Processing, retries := 3\<rparr> \<in> set (inbound_queue stuck_store) \<and>
   demo_inbound\<lparr>status := Pending, retries := 3, updated_at := 9000\<rparr>
     \<in> set (inbound_queue (openStore 9000 9001 9002 9003 stuck_store))"
proof -
  note t = C7_processing_rows_reset_on_open [of 9000 stuck_store 9000 9001 9002 9003]
  have e0: "inbound_queue stuck_store ! 0 = demo_inbound\<lparr>status := Processing, retries := 3\<rparr>"
    and e1: "inbound_queue stuck_store ! 1 =
       demo_inbound\<lparr>row_id := 2, status := Completed, message_id := ''m2''\<rparr>"
    and e2: "outbound_queue stuck_store ! 0 = demo_outbound\<lparr>status := Processing, retries := 5\<rparr>"
    by (simp_all add: stuck_store_def)
  have l0: "0 < length (inbound_queue stuck_store)"
    and l1: "1 < length (inbound_queue stuck_store)"
    and l2: "0 < length (outbound_queue stuck_store)"
    by (simp_all add: stuck_store_def)
  have s0: "status (inbound_queue stuck_store ! 0) = Processing"
    and r0: "retries (inbound_queue stuck_store ! 0) = 3"
    and s1: "status (inbound_queue stuck_store ! 1) = Completed"
    and s2: "status (outbound_queue stuck_store ! 0) = Processing"
    by (simp_all add: stuck_store_def)
  have m: "demo_inbound\<lparr>status := Processing, retries := 3\<rparr> \<in> set (inbound_queue stuck_store)"
    by (simp add: stuck_store_def)
  have ms: "status (demo_inbound\<lparr>status := Processing, retries := 3\<rparr>) = Processing"
    by simp
  from t l0 have "inbound_queue (resetStuckMessages 9000 stuck_store) ! 0 =
        (if status (inbound_queue stuck_store ! 0) = Processing
         then (inbound_queue stuck_store ! 0)\<lparr>status := Pending, updated_at := 9000\<rparr>
         else inbound_queue stuck_store ! 0) \<and>
      retries (inbound_queue (resetStuckMessages 9000 stuck_store) ! 0) =
        retries (inbound_queue stuck_store ! 0)"
    by blast
  then have a: "inbound_queue (resetStuckMessages 9000 stuck_store) ! 0 =
        demo_inbound\<lparr>status := Pending, retries := 3, updated_at := 9000\<rparr>"
    and a': "retries (inbound_queue (resetStuckMessages 9000 stuck_store) ! 0) = 3"
    by (simp_all add: e0)
  from t l1 have "inbound_queue (resetStuckMessages 9000 stuck_store) ! 1 =
        (if status (inbound_queue stuck_store ! 1) = Processing
         then (inbound_queue stuck_store ! 1)\<lparr>status := Pending, updated_at := 9000\<rparr>
         else inbound_queue stuck_store ! 1)"
    by blast
  with s1 have b: "inbound_queue (resetStuckMessages 9000 stuck_store) ! 1 =
      inbound_queue stuck_store ! 1"
    by simp
  from t l2 have "outbound_queue (resetStuckMessages 9000 stuck_store) ! 0 =
        (if status (outbound_queue stuck_store ! 0) = Processing
         then (outbound_queue stuck_store ! 0)\<lparr>status := Pending, updated_at := 9000\<rparr>
         else outbound_queue stuck_store ! 0)"
    by blast
  then have c: "outbound_queue (resetStuckMessages 9000 stuck_store) ! 0 =
      demo_outbound\<lparr>status := Pending, retries := 5, updated_at := 9000\<rparr>"
    by (simp add: e2)
  from t m ms have "demo_inbound\<lparr>status := Processing, retries := 3\<rparr>
      \<lparr>status := Pending, updated_at := 9000\<rparr>
      \<in> set (inbound_queue (openStore 9000 9001 9002 9003 stuck_store))"
    by blast
  moreover have "demo_inbound\<lparr>status := Processing, retries := 3\<rparr>
      \<lparr>status := Pending, updated_at := 9000\<rparr> =
      demo_inbound\<lparr>status := Pending, retries := 3, updated_at := 9000\<rparr>"
    by (simp add: demo_inbound_def)
  ultimately have d: "demo_inbound\<lparr>status := Pending, retries := 3, updated_at := 9000\<rparr>
      \<in> set (inbound_queue (openStore 9000 9001 9002 9003 stuck_store))"
    by (simp only:)
  show ?thesis
    using l0 s0 r0 a a' l1 s1 b l2 s2 c m d by blast
qed

subsection \<open>Dequeue\<close>

lemma due_iff:
  "due now r = (status r = Pending \<and>
     (next_retry_at r = None \<or> (\<exists>t. next_retry_at r = Some t \<and> t \<le> now)))"
  by (cases "next_retry_at r") (auto simp: due_def)

lemma take_sorted_prefix:
  fixes f :: "'a \<Rightarrow> int"
  shows "mset (take n (sort_key f xs)) \<subseteq># mset xs"
    and "sorted (map f (take n (sort_key f xs)))"
    and "length (take n (sort_key f xs)) = min n (length xs)"
    and "\<forall>a \<in> set (take n (sort_key f xs)).
           \<forall>b \<in># mset xs - mset (take n (sort_key f xs)). f a \<le> f b"
proof -
  let ?ys = "sort_key f xs"
  have split: "mset xs = mset (take n ?ys) + mset (drop n ?ys)"
    by (metis append_take_drop_id mset_append mset_sort)
  then show "mset (take n ?ys) \<subseteq># mset xs"
    by simp
  have srt: "sorted (map f (take n ?ys @ drop n ?ys))"
    by simp
  then show "sorted (map f (take n ?ys))"
    by (simp only: map_append sorted_append)
  show "length (take n ?ys) = min n (length xs)"
    by (simp add: min.commute)
  from split have rest: "mset xs - mset (take n ?ys) = mset (drop n ?ys)"
    by simp
  from srt have "\<forall>a \<in> set (take n ?ys). \<forall>b \<in> set (drop n ?ys). f a \<le> f b"
    by (simp only: map_append sorted_append) auto
  with rest show "\<forall>a \<in> set (take n ?ys). \<forall>b \<in># mset xs - mset (take n ?ys). f a \<le> f b"
    by simp
qed

text \<open>
  Claim C6. \<^verbatim>\<open>dequeueInbound(limit)\<close> and \<^verbatim>\<open>dequeueOutbound(limit)\<close> leave the
  store as it is and return rows of the table whose status is \<open>pending\<close> and whose
  \<open>next_retry_at\<close> is null or at most \<open>now\<close> (each such row at most as often as the
  table holds it), in ascending order of \<open>created_at\<close>, as many as there are such rows
  but at most \<open>limit\<close>, and no row left out was created before a row returned. So the
  result is all the due rows when \<open>limit\<close> allows, and the oldest \<open>limit\<close> of them
  otherwise.
\<close>

theorem C6_dequeue_returns_due_rows_oldest_first:
  "snd (dequeueInbound now limit s) = s \<and>
   (let rows = fst (dequeueInbound now limit s);
        eligible = filter (\<lambda>r. status r = Pending \<and>
                     (next_retry_at r = None \<or> (\<exists>t. next_retry_at r = Some t \<and> t \<le> now)))
                     (inbound_queue s)
    in mset rows \<subseteq># mset eligible \<and>
       sorted (map created_at rows) \<and>
       length rows = min limit (length eligible) \<and>
       (\<forall>a \<in> set rows. \<forall>b \<in># mset eligible - mset rows. created_at a \<le> created_at b)) \<and>
   snd (dequeueOutbound now limit s) = s \<and>
   (let rows = fst (dequeueOutbound now limit s);
        eligible = filter (\<lambda>r. status r = Pending \<and>
                     (next_retry_at r = None \<or> (\<exists>t. next_retry_at r = Some t \<and> t \<le> now)))
                     (outbound_queue s)
    in mset rows \<subseteq># mset eligible \<and>
       sorted (map created_at rows) \<and>
       length rows = min limit (length eligible) \<and>
       (\<forall>a \<in> set rows. \<forall>b \<in># mset eligible - mset rows. created_at a \<le> created_at b))"
  unfolding Let_def dequeueInbound_def dequeueOutbound_def stmtDequeueInbound_def
    stmtDequeueOutbound_def fst_conv snd_conv due_iff [symmetric]
  using take_sorted_prefix [where f = created_at and n = limit
      and xs = "filter (due now) (inbound_queue s)"]
    take_sorted_prefix [where f = created_at and n = limit
      and xs = "filter (due now) (outbound_queue s)"]
  by blast

theorem C6_witness:
  "fst (dequeueInbound 5000 1 queue_store) =
     [demo_inbound\<lparr>row_id := 2, created_at := 1000, next_retry_at := None,
        message_id := ''m2''\<rparr>] \<and>
   snd (dequeueInbound 5000 1 queue_store) = queue_store \<and>
   length (fst (dequeueInbound 5000 10 queue_store)) = 2 \<and>
   sorted (map created_at (fst (dequeueInbound 5000 10 queue_store))) \<and>
   fst (dequeueOutbound 5000 5 queue_store) =
     [demo_outbound\<lparr>row_id := 2, created_at := 1000, next_retry_at := None,
        content := ''yo'', content_hash := ''yo''\<rparr>,
      demo_outbound\<lparr>created_at := 2000\<rparr>] \<and>
   snd (dequeueOutbound 5000 5 queue_store) = queue_store \<and>
   demo_inbound\<lparr>created_at := 2000\<rparr> \<in>#
     mset (filter (\<lambda>r. status r = Pending \<and>
                     (next_retry_at r = None \<or> (\<exists>t. next_retry_at r = Some t \<and> t \<le> 5000)))
                     (inbound_queue queue_store)) -
     mset (fst (dequeueInbound 5000 1 queue_store)) \<and>
   created_at (demo_inbound\<lparr>row_id := 2, created_at := 1000, next_retry_at := None,
        message_id := ''m2''\<rparr>) \<le> created_at (demo_inbound\<lparr>created_at := 2000\<rparr>)"
proof -
  note t1 = C6_dequeue_returns_due_rows_oldest_first [of 5000 1 queue_store, unfolded Let_def]
  note t10 = C6_dequeue_returns_due_rows_oldest_first [of 5000 10 queue_store, unfolded Let_def]
  note t5 = C6_dequeue_returns_due_rows_oldest_first [of 5000 5 queue_store, unfolded Let_def]
  have ev1: "fst (dequeueInbound 5000 1 queue_store) =
     [demo_inbound\<lparr>row_id := 2, created_at := 1000, next_retry_at := None,
        message_id := ''m2''\<rparr>]"
    by (simp add: dequeueInbound_def stmtDequeueInbound_def queue_store_def
        demo_inbound_def due_def)
  have ev2: "fst (dequeueOutbound 5000 5 queue_store) =
     [demo_outbound\<lparr>row_id := 2, created_at := 1000, next_retry_at := None,
        content := ''yo'', content_hash := ''yo''\<rparr>,
      demo_outbound\<lparr>created_at := 2000\<rparr>]"
    by (simp add: dequeueOutbound_def stmtDequeueOutbound_def queue_store_def
        demo_outbound_def due_def)
  have el: "length (filter (\<lambda>r. status r = Pending \<and>
                     (next_retry_at r = None \<or> (\<exists>t. next_retry_at r = Some t \<and> t \<le> 5000)))
                     (inbound_queue queue_store)) = 2"
    by (simp add: queue_store_def demo_inbound_def)
  from t1 have a: "snd (dequeueInbound 5000 1 queue_store) = queue_store"
    by blast
  from t10 have "length (fst (dequeueInbound 5000 10 queue_store)) =
      min 10 (length (filter (\<lambda>r. status r = Pending \<and>
                     (next_retry_at r = None \<or> (\<exists>t. next_retry_at r = Some t \<and> t \<le> 5000)))
                     (inbound_queue queue_store)))"
    by blast
  with el have b: "length (fst (dequeueInbound 5000 10 queue_store)) = 2"
    by simp
  from t10 have c: "sorted (map created_at (fst (dequeueInbound 5000 10 queue_store)))"
    by blast
  from t5 have d: "snd (dequeueOutbound 5000 5 queue_store) = queue_store"
    by blast
  have m: "demo_inbound\<lparr>created_at := 2000\<rparr> \<in>#
     mset (filter (\<lambda>r. status r = Pending \<and>
                     (next_retry_at r = None \<or> (\<exists>t. next_retry_at r = Some t \<and> t \<le> 5000)))
                     (inbound_queue queue_store)) -
     mset (fst (dequeueInbound 5000 1 queue_store))"
    unfolding ev1 by (simp add: queue_store_def demo_inbound_def)
  have r: "demo_inbound\<lparr>row_id := 2, created_at := 1000, next_retry_at := None,
        message_id := ''m2''\<rparr> \<in> set (fst (dequeueInbound 5000 1 queue_store))"
    unfolding ev1 by simp
  from t1 r m have e: "created_at (demo_inbound\<lparr>row_id := 2, created_at := 1000,
        next_retry_at := None, message_id := ''m2''\<rparr>) \<le>
      created_at (demo_inbound\<lparr>created_at := 2000\<rparr>)"
    by blast
  show ?thesis
    using ev1 a b c ev2 d m e by blast
qed

subsection \<open>Fresh keys\<close>

lemma find_append_last:
  "\<forall>x \<in> set xs. \<not> P x \<Longrightarrow> P r \<Longrightarrow> find P (xs @ [r]) = Some r"
  by (induction xs) auto

lemma fold_max_ge: "(seq::int) \<le> fold max ids seq \<and> (\<forall>x \<in> set ids. x \<le> fold max ids seq)"
proof (induction ids arbitrary: seq)
  case Nil
  show ?case by simp
next
  case (Cons a ids)
  from Cons [of "max a seq"] show ?case by auto
qed

lemma next_rowid_fresh: "next_rowid (map row_id rows) seq \<notin> row_id ` set rows"
proof
  assume "next_rowid (map row_id rows) seq \<in> row_id ` set rows"
  then have "next_rowid (map row_id rows) seq \<in> set (map row_id rows)" by simp
  with fold_max_ge [of seq "map row_id rows"]
  have "next_rowid (map row_id rows) seq \<le> fold max (map row_id rows) seq" by blast
  then show False by (simp add: next_rowid_def)
qed

subsection \<open>Inbound enqueue\<close>

lemma stmtCheckInboundExists_None:
  "(stmtCheckInboundExists m s = None) = (m \<notin> message_id ` set (inbound_queue s))"
  by (auto simp: stmtCheckInboundExists_def find_None_iff)

lemma stmtCheckInboundExists_Some:
  "stmtCheckInboundExists m s = Some (i, st) \<Longrightarrow>
   \<exists>r \<in> set (inbound_queue s). message_id r = m \<and> row_id r = i \<and> status r = st"
  by (auto simp: stmtCheckInboundExists_def find_Some_iff)

lemma enqueueInbound_duplicate:
  assumes "m \<in> message_id ` set (inbound_queue s)" and "messageId p = m"
  shows "\<exists>st. enqueueInbound now p s =
           (\<lparr>enqueued = False, reason = Some ''duplicate'', result_id = None,
             existing = Some st\<rparr>, s) \<and>
           (\<exists>r \<in> set (inbound_queue s). message_id r = m \<and> status r = st)"
proof -
  from assms have "stmtCheckInboundExists (messageId p) s \<noteq> None"
    by (simp add: stmtCheckInboundExists_None)
  then obtain i st where c: "stmtCheckInboundExists (messageId p) s = Some (i, st)"
    by auto
  from stmtCheckInboundExists_Some [OF c] assms(2) c show ?thesis
    by (auto simp: enqueueInbound_def)
qed

lemma enqueueInbound_fresh:
  assumes "messageId p \<notin> message_id ` set (inbound_queue s)"
  shows "enqueueInbound now p s =
      (\<lparr>enqueued = True, reason = None,
        result_id = Some (next_rowid (map row_id (inbound_queue s)) (inbound_seq s)),
        existing = None\<rparr>,
       s\<lparr>inbound_queue := inbound_queue s @
            [\<lparr>row_id = next_rowid (map row_id (inbound_queue s)) (inbound_seq s),
              status = Pending, retries = 0, next_retry_at = Some now, created_at = now,
              updated_at = now, completed_at = None, last_error = None,
              message_id = messageId p, in_chat_id = in_chatId p,
              in_session_key = in_sessionKey p, message_text = messageText p,
              attachments_json = attachments p, response_text = None\<rparr>],
          inbound_seq := next_rowid (map row_id (inbound_queue s)) (inbound_seq s)\<rparr>)"
proof -
  from assms have "stmtCheckInboundExists (messageId p) s = None"
    by (simp add: stmtCheckInboundExists_None)
  moreover from assms have "\<not> (\<exists>r \<in> set (inbound_queue s). message_id r = messageId p)"
    by (auto simp: image_iff)
  ultimately show ?thesis
    by (simp add: enqueueInbound_def stmtEnqueueInbound_def Let_def)
qed

text \<open>
  Claim C5. Two calls of \<^verbatim>\<open>enqueueInbound\<close> with the same external message id, at
  any times and with any other parameters: the second call returns
  \<open>enqueued = false\<close> with reason \<open>duplicate\<close> and leaves the store as the first call
  left it. When no row of the store carried that message id before, the first call
  returns \<open>enqueued = true\<close> with the key of the row it appended (a key no row had, under
  which the new pending row is found), the second call reports the existing row's
  status \<open>pending\<close>, and the store holds exactly one row with that message id.
\<close>

theorem C5_enqueueInbound_twice_stores_one_row:
  assumes "messageId p2 = messageId p1"
  shows "(let (r1, s1) = enqueueInbound t1 p1 s;
              (r2, s2) = enqueueInbound t2 p2 s1
          in enqueued r2 = False \<and> reason r2 = Some ''duplicate'' \<and> s2 = s1 \<and>
             (messageId p1 \<notin> message_id ` set (inbound_queue s) \<longrightarrow>
                enqueued r1 = True \<and>
                (\<exists>i row. result_id r1 = Some i \<and> i \<notin> row_id ` set (inbound_queue s) \<and>
                   selectInbound i s1 = Some row \<and> inbound_queue s1 = inbound_queue s @ [row] \<and>
                   message_id row = messageId p1 \<and> message_text row = messageText p1 \<and>
                   status row = Pending \<and> retries row = 0) \<and>
                existing r2 = Some Pending \<and>
                length (filter (\<lambda>r. message_id r = messageId p1) (inbound_queue s2)) = 1))"
proof (cases "messageId p1 \<in> message_id ` set (inbound_queue s)")
  case True
  from enqueueInbound_duplicate [OF True refl, of t1]
  obtain st where e1: "enqueueInbound t1 p1 s =
      (\<lparr>enqueued = False, reason = Some ''duplicate'', result_id = None,
        existing = Some st\<rparr>, s)" by blast
  from enqueueInbound_duplicate [OF True assms, of t2]
  obtain st' where e2: "enqueueInbound t2 p2 s =
      (\<lparr>enqueued = False, reason = Some ''duplicate'', result_id = None,
        existing = Some st'\<rparr>, s)" by blast
  from True e1 e2 show ?thesis by simp
next
  case False
  let ?i = "next_rowid (map row_id (inbound_queue s)) (inbound_seq s)"
  let ?row = "\<lparr>row_id = ?i,
              status = Pending, retries = 0, next_retry_at = Some t1, created_at = t1,
              updated_at = t1, completed_at = None, last_error = None,
              message_id = messageId p1, in_chat_id = in_chatId p1,
              in_session_key = in_sessionKey p1, message_text = messageText p1,
              attachments_json = attachments p1, response_text = None\<rparr>"
  let ?s1 = "s\<lparr>inbound_queue := inbound_queue s @ [?row], inbound_seq := ?i\<rparr>"
  note e1 = enqueueInbound_fresh [OF False, of t1]
  have fresh: "?i \<notin> row_id ` set (inbound_queue s)"
    by (rule next_rowid_fresh)
  then have sel: "selectInbound ?i ?s1 = Some ?row"
    by (auto simp: selectInbound_def image_iff intro!: find_append_last)
  from False have nm: "\<forall>x \<in> set (inbound_queue s). message_id x \<noteq> messageId p1"
    by (auto simp: image_iff)
  have f: "find (\<lambda>r. message_id r = messageId p1) (inbound_queue s @ [?row]) = Some ?row"
    using nm by (auto intro!: find_append_last)
  then have e2: "enqueueInbound t2 p2 ?s1 =
      (\<lparr>enqueued = False, reason = Some ''duplicate'', result_id = None,
        existing = Some Pending\<rparr>, ?s1)"
    using assms by (simp add: enqueueInbound_def stmtCheckInboundExists_def)
  have cnt: "length (filter (\<lambda>r. message_id r = messageId p1) (inbound_queue s @ [?row])) = 1"
    using nm by (simp add: filter_empty_conv)
  from False e1 e2 fresh sel cnt show ?thesis
    by simp
qed

theorem C5_witness:
  "messageId (demo_in_params\<lparr>messageText := ''again''\<rparr>) = messageId demo_in_params \<and>
   messageId demo_in_params \<notin> message_id ` set (inbound_queue empty_store) \<and>
   fst (enqueueInbound 1000 demo_in_params empty_store) =
     \<lparr>enqueued = True, reason = None, result_id = Some 1, existing = None\<rparr> \<and>
   fst (enqueueInbound 2000 (demo_in_params\<lparr>messageText := ''again''\<rparr>)
          (snd (enqueueInbound 1000 demo_in_params empty_store))) =
     \<lparr>enqueued = False, reason = Some ''duplicate'', result_id = None,
      existing = Some Pending\<rparr> \<and>
   snd (enqueueInbound 2000 (demo_in_params\<lparr>messageText := ''again''\<rparr>)
          (snd (enqueueInbound 1000 demo_in_params empty_store))) =
     snd (enqueueInbound 1000 demo_in_params empty_store) \<and>
   length (filter (\<lambda>r. message_id r = messageId demo_in_params)
     (inbound_queue (snd (enqueueInbound 2000 (demo_in_params\<lparr>messageText := ''again''\<rparr>)
          (snd (enqueueInbound 1000 demo_in_params empty_store)))))) = 1"
proof -
  let ?p2 = "demo_in_params\<lparr>messageText := ''again''\<rparr>"
  let ?first = "enqueueInbound 1000 demo_in_params empty_store"
  let ?second = "enqueueInbound 2000 ?p2 (snd ?first)"
  have a: "messageId ?p2 = messageId demo_in_params"
    by simp
  have b: "messageId demo_in_params \<notin> message_id ` set (inbound_queue empty_store)"
    by (simp add: empty_store_def)
  note t = C5_enqueueInbound_twice_stores_one_row [OF a, of 1000 empty_store 2000,
      unfolded Let_def split_beta]
  have r1: "fst ?first = \<lparr>enqueued = True, reason = None, result_id = Some 1, existing = None\<rparr>"
    by (simp add: enqueueInbound_def stmtCheckInboundExists_def stmtEnqueueInbound_def
        empty_store_def demo_in_params_def next_rowid_def)
  from t b have c: "enqueued (fst ?second) = False" "reason (fst ?second) = Some ''duplicate''"
    "snd ?second = snd ?first" "existing (fst ?second) = Some Pending"
    "length (filter (\<lambda>r. message_id r = messageId demo_in_params)
       (inbound_queue (snd ?second))) = 1"
    by blast+
  have r2: "result_id (fst ?second) = None"
    by (simp add: enqueueInbound_def stmtCheckInboundExists_def stmtEnqueueInbound_def
        empty_store_def demo_in_params_def next_rowid_def)
  from c(1,2,4) r2 have d: "fst ?second =
     \<lparr>enqueued = False, reason = Some ''duplicate'', result_id = None,
      existing = Some Pending\<rparr>"
    by (cases "fst ?second") simp
  show ?thesis
    using a b r1 d c(3) c(5) by blast
qed

subsection \<open>Outbound enqueue\<close>

lemma stmtCheckOutboundDupe_None:
  "(stmtCheckOutboundDupe hash chat (now - DEDUP_WINDOW_MS) s = None) =
   (\<not> pending_duplicate hash chat now s)"
  by (auto simp: stmtCheckOutboundDupe_def find_None_iff pending_duplicate_def
      DEDUP_WINDOW_MS_def)

lemma stmtCheckSentDupe_None:
  "(stmtCheckSentDupe hash chat (now - DEDUP_WINDOW_MS) s = None) =
   (\<not> recently_sent hash chat now s)"
  by (auto simp: stmtCheckSentDupe_def find_None_iff recently_sent_def DEDUP_WINDOW_MS_def)

lemma enqueueOutbound_cases:
  "enqueueOutbound h now qt p s =
     (if pending_duplicate (h (p_content p)) (chatId p) now s
      then (\<lparr>enqueued = False, reason = Some ''duplicate_pending'', result_id = None,
             existing = None\<rparr>, s)
      else if recently_sent (h (p_content p)) (chatId p) now s
      then (\<lparr>enqueued = False, reason = Some ''already_sent'', result_id = None,
             existing = None\<rparr>, s)
      else (\<lparr>enqueued = True, reason = None,
             result_id = Some (next_rowid (map row_id (outbound_queue s)) (outbound_seq s)),
             existing = None\<rparr>,
            s\<lparr>outbound_queue := outbound_queue s @
                 [\<lparr>row_id = next_rowid (map row_id (outbound_queue s)) (outbound_seq s),
                   status = Pending, retries = 0, next_retry_at = Some now,
                   created_at = now, updated_at = now, completed_at = None,
                   last_error = None, queue_type = qt,
                   run_id = (case runId p of None \<Rightarrow> [] | Some r \<Rightarrow> r),
                   session_key = sessionKey p, chat_id = chatId p, content = p_content p,
                   content_hash = h (p_content p), lark_message_id = None\<rparr>],
               outbound_seq := next_rowid (map row_id (outbound_queue s)) (outbound_seq s)\<rparr>))"
proof -
  let ?d = "stmtCheckOutboundDupe (h (p_content p)) (chatId p) (now - DEDUP_WINDOW_MS) s"
  let ?e = "stmtCheckSentDupe (h (p_content p)) (chatId p) (now - DEDUP_WINDOW_MS) s"
  show ?thesis
  proof (cases ?d)
    case (Some a)
    then have "?d \<noteq> None" by simp
    then have "pending_duplicate (h (p_content p)) (chatId p) now s"
      by (simp only: stmtCheckOutboundDupe_None not_not)
    with Some show ?thesis
      by (simp add: enqueueOutbound_def Let_def)
  next
    case None
    then have nd: "\<not> pending_duplicate (h (p_content p)) (chatId p) now s"
      by (simp add: stmtCheckOutboundDupe_None)
    show ?thesis
    proof (cases ?e)
      case (Some b)
      then have "?e \<noteq> None" by simp
      then have "recently_sent (h (p_content p)) (chatId p) now s"
        by (simp only: stmtCheckSentDupe_None not_not)
      with Some None nd show ?thesis
        by (simp add: enqueueOutbound_def Let_def)
    next
      case None2: None
      then have ns: "\<not> recently_sent (h (p_content p)) (chatId p) now s"
        by (simp add: stmtCheckSentDupe_None)
      from None None2 nd ns show ?thesis
        by (simp add: enqueueOutbound_def Let_def stmtEnqueueOutbound_def)
    qed
  qed
qed

lemma markOutboundCompleted_queue:
  "outbound_queue (markOutboundCompleted t i lark s) =
   map (\<lambda>r. if row_id r = i
             then r\<lparr>status := Completed, updated_at := t,
                    retries := (case selectOutbound i s of None \<Rightarrow> 0 | Some m \<Rightarrow> retries m),
                    next_retry_at := None, last_error := None, completed_at := Some t,
                    lark_message_id := lark\<rparr>
             else r)
     (outbound_queue s)"
  by (simp add: markOutboundCompleted_def stmtUpdateOutbound_def stmtRecordSent_def Let_def
      split: option.split)

lemma markOutboundCompleted_sent:
  assumes "selectOutbound i s = Some r"
  shows "sent_messages (markOutboundCompleted t i lark s) =
         sent_messages s @
           [\<lparr>sent_id = next_rowid (map sent_id (sent_messages s)) (sent_seq s),
             sent_content_hash = content_hash r, sent_chat_id = chat_id r,
             sent_lark_message_id = lark, sent_created_at = t\<rparr>]"
  using assms
  by (simp add: markOutboundCompleted_def stmtUpdateOutbound_def stmtRecordSent_def Let_def)

lemma reenqueue_after_completed:
  assumes sel: "selectOutbound i s = Some r"
    and hash: "content_hash r = h (p_content p)" and chat: "chat_id r = chatId p"
    and recent: "t2 - 10 * 60 * 1000 < t1"
  shows "enqueueOutbound h t2 qt p (markOutboundCompleted t1 i lark s) =
     (\<lparr>enqueued = False,
       reason = Some (if pending_duplicate (h (p_content p)) (chatId p) t2
                           (s\<lparr>outbound_queue := filter (\<lambda>r'. row_id r' \<noteq> i) (outbound_queue s)\<rparr>)
                      then ''duplicate_pending'' else ''already_sent''),
       result_id = None, existing = None\<rparr>,
      markOutboundCompleted t1 i lark s)"
proof -
  let ?s' = "markOutboundCompleted t1 i lark s"
  have dup: "pending_duplicate (h (p_content p)) (chatId p) t2 ?s' =
             pending_duplicate (h (p_content p)) (chatId p) t2
               (s\<lparr>outbound_queue := filter (\<lambda>r'. row_id r' \<noteq> i) (outbound_queue s)\<rparr>)"
    unfolding pending_duplicate_def markOutboundCompleted_queue by (auto split: if_splits)
  have sent: "recently_sent (h (p_content p)) (chatId p) t2 ?s'"
    unfolding recently_sent_def using hash chat recent
    by (simp add: markOutboundCompleted_sent [OF sel])
  show ?thesis
    unfolding enqueueOutbound_cases [of h t2 qt p ?s'] dup using sent by simp
qed

lemma enqueue_complete_reenqueue:
  assumes enq: "enqueueOutbound h t0 qt p s = (res, s0)" and ok: "enqueued res"
    and rid: "result_id res = Some i"
    and later: "t0 \<le> t2" and recent: "t2 - 10 * 60 * 1000 < t1"
    and same: "p_content p' = p_content p" "chatId p' = chatId p"
  shows "enqueueOutbound h t2 qt' p' (markOutboundCompleted t1 i lark s0) =
     (\<lparr>enqueued = False, reason = Some ''already_sent'', result_id = None, existing = None\<rparr>,
      markOutboundCompleted t1 i lark s0)"
proof -
  let ?i = "next_rowid (map row_id (outbound_queue s)) (outbound_seq s)"
  let ?row = "\<lparr>row_id = ?i, status = Pending, retries = 0, next_retry_at = Some t0,
                created_at = t0, updated_at = t0, completed_at = None,
                last_error = None, queue_type = qt,
                run_id = (case runId p of None \<Rightarrow> [] | Some r \<Rightarrow> r),
                session_key = sessionKey p, chat_id = chatId p, content = p_content p,
                content_hash = h (p_content p), lark_message_id = None\<rparr>"
  from enq ok have nodup: "\<not> pending_duplicate (h (p_content p)) (chatId p) t0 s"
    unfolding enqueueOutbound_cases by (auto split: if_splits)
  from enq ok have s0: "s0 = s\<lparr>outbound_queue := outbound_queue s @ [?row], outbound_seq := ?i\<rparr>"
    and res: "result_id res = Some ?i"
    unfolding enqueueOutbound_cases by (auto split: if_splits)
  from res rid have i: "i = ?i" by simp
  have fresh: "\<forall>x \<in> set (outbound_queue s). row_id x \<noteq> ?i"
    using next_rowid_fresh [of "outbound_queue s" "outbound_seq s"] by (auto simp: image_iff)
  then have sel: "selectOutbound i s0 = Some ?row"
    unfolding s0 i by (auto simp: selectOutbound_def intro!: find_append_last)
  have other: "\<not> pending_duplicate (h (p_content p')) (chatId p') t2
                   (s0\<lparr>outbound_queue := filter (\<lambda>r'. row_id r' \<noteq> i) (outbound_queue s0)\<rparr>)"
    using nodup later same unfolding s0 i pending_duplicate_def by auto
  from reenqueue_after_completed [OF sel _ _ recent, of h p' qt' lark] same other
  show ?thesis by simp
qed

lemma enqueueOutbound_other_chat:
  assumes "chatId q \<noteq> chatId p"
  shows "enqueued (fst (enqueueOutbound h t2 qt p (snd (enqueueOutbound h t1 qt' q s)))) =
           enqueued (fst (enqueueOutbound h t2 qt p s)) \<and>
         reason (fst (enqueueOutbound h t2 qt p (snd (enqueueOutbound h t1 qt' q s)))) =
           reason (fst (enqueueOutbound h t2 qt p s))"
proof -
  let ?s1 = "snd (enqueueOutbound h t1 qt' q s)"
  have sent: "recently_sent (h (p_content p)) (chatId p) t2 ?s1 =
              recently_sent (h (p_content p)) (chatId p) t2 s"
    unfolding enqueueOutbound_cases [of h t1 qt' q s] recently_sent_def by simp
  have dup: "pending_duplicate (h (p_content p)) (chatId p) t2 ?s1 =
             pending_duplicate (h (p_content p)) (chatId p) t2 s"
    unfolding enqueueOutbound_cases [of h t1 qt' q s] pending_duplicate_def
    using assms by auto
  show ?thesis
    unfolding enqueueOutbound_cases [of h t2 qt p ?s1] enqueueOutbound_cases [of h t2 qt p s]
      dup sent by simp
qed

lemma enqueueOutbound_fresh_chat:
  assumes "\<forall>r \<in> set (outbound_queue s). chat_id r \<noteq> chatId p"
    and "\<forall>r \<in> set (sent_messages s). sent_chat_id r \<noteq> chatId p"
  shows "enqueued (fst (enqueueOutbound h now qt p s))"
proof -
  from assms have "\<not> pending_duplicate (h (p_content p)) (chatId p) now s"
    and "\<not> recently_sent (h (p_content p)) (chatId p) now s"
    by (auto simp: pending_duplicate_def recently_sent_def)
  then show ?thesis
    by (simp add: enqueueOutbound_cases)
qed

text \<open>
  Claim C4. For every content and chat id, \<^verbatim>\<open>enqueueOutbound\<close> returns
  \<open>{enqueued: false, reason: "duplicate_pending"}\<close> when a pending or processing row with
  the same (contentHash, chatId) was created within the last 10 minutes; otherwise
  \<open>{enqueued: false, reason: "already_sent"}\<close> when a sent record with the same key was
  created within the last 10 minutes; otherwise it appends exactly one new pending row
  and returns \<open>enqueued = true\<close> with its key; a rejection leaves the store as it was
  (first conjunct).

  After \<^verbatim>\<open>markOutboundCompleted\<close> of the row a successful enqueue created, an enqueue
  of the same content and chat id less than ten minutes after the completion is
  rejected as \<open>already_sent\<close> (second conjunct). For the completion of any row of the
  table, such an enqueue is rejected, as \<open>already_sent\<close> unless another row makes the
  first check answer \<open>duplicate_pending\<close> (third conjunct).

  The same content for another chat id is decided independently: an enqueue for a
  different chat id in between changes neither \<open>enqueued\<close> nor \<open>reason\<close> (fourth
  conjunct), and an enqueue for a chat id that no row and no sent record carries always
  succeeds, whatever content other chats hold (fifth conjunct).
\<close>

theorem C4_enqueueOutbound_two_phase_dedup:
  "enqueueOutbound h now qt p s =
     (if pending_duplicate (h (p_content p)) (chatId p) now s
      then (\<lparr>enqueued = False, reason = Some ''duplicate_pending'', result_id = None,
             existing = None\<rparr>, s)
      else if recently_sent (h (p_content p)) (chatId p) now s
      then (\<lparr>enqueued = False, reason = Some ''already_sent'', result_id = None,
             existing = None\<rparr>, s)
      else (\<lparr>enqueued = True, reason = None,
             result_id = Some (next_rowid (map row_id (outbound_queue s)) (outbound_seq s)),
             existing = None\<rparr>,
            s\<lparr>outbound_queue := outbound_queue s @
                 [\<lparr>row_id = next_rowid (map row_id (outbound_queue s)) (outbound_seq s),
                   status = Pending, retries = 0, next_retry_at = Some now,
                   created_at = now, updated_at = now, completed_at = None,
                   last_error = None, queue_type = qt,
                   run_id = (case runId p of None \<Rightarrow> [] | Some r \<Rightarrow> r),
                   session_key = sessionKey p, chat_id = chatId p, content = p_content p,
                   content_hash = h (p_content p), lark_message_id = None\<rparr>],
               outbound_seq := next_rowid (map row_id (outbound_queue s)) (outbound_seq s)\<rparr>)) \<and>
   (enqueueOutbound h now qt p s = (res, s0) \<and> enqueued res \<and> result_id res = Some i \<and>
    now \<le> t2 \<and> t2 - 10 * 60 * 1000 < t1 \<and>
    p_content p' = p_content p \<and> chatId p' = chatId p \<longrightarrow>
      enqueueOutbound h t2 qt' p' (markOutboundCompleted t1 i lark s0) =
        (\<lparr>enqueued = False, reason = Some ''already_sent'', result_id = None,
          existing = None\<rparr>,
         markOutboundCompleted t1 i lark s0)) \<and>
   (selectOutbound j s = Some r \<and> content_hash r = h (p_content p) \<and> chat_id r = chatId p \<and>
    t2 - 10 * 60 * 1000 < t1 \<longrightarrow>
      enqueueOutbound h t2 qt p (markOutboundCompleted t1 j lark s) =
        (\<lparr>enqueued = False,
          reason = Some (if pending_duplicate (h (p_content p)) (chatId p) t2
                              (s\<lparr>outbound_queue :=
                                   filter (\<lambda>r'. row_id r' \<noteq> j) (outbound_queue s)\<rparr>)
                         then ''duplicate_pending'' else ''already_sent''),
          result_id = None, existing = None\<rparr>,
         markOutboundCompleted t1 j lark s)) \<and>
   (chatId q \<noteq> chatId p \<longrightarrow>
      enqueued (fst (enqueueOutbound h t2 qt p (snd (enqueueOutbound h t1 qt' q s)))) =
        enqueued (fst (enqueueOutbound h t2 qt p s)) \<and>
      reason (fst (enqueueOutbound h t2 qt p (snd (enqueueOutbound h t1 qt' q s)))) =
        reason (fst (enqueueOutbound h t2 qt p s))) \<and>
   ((\<forall>x \<in> set (outbound_queue s). chat_id x \<noteq> chatId p) \<and>
    (\<forall>x \<in> set (sent_messages s). sent_chat_id x \<noteq> chatId p) \<longrightarrow>
      enqueued (fst (enqueueOutbound h now qt p s)))"
proof (intro conjI impI)
  show "enqueueOutbound h now qt p s =
     (if pending_duplicate (h (p_content p)) (chatId p) now s
      then (\<lparr>enqueued = False, reason = Some ''duplicate_pending'', result_id = None,
             existing = None\<rparr>, s)
      else if recently_sent (h (p_content p)) (chatId p) now s
      then (\<lparr>enqueued = False, reason = Some ''already_sent'', result_id = None,
             existing = None\<rparr>, s)
      else (\<lparr>enqueued = True, reason = None,
             result_id = Some (next_rowid (map row_id (outbound_queue s)) (outbound_seq s)),
             existing = None\<rparr>,
            s\<lparr>outbound_queue := outbound_queue s @
                 [\<lparr>row_id = next_rowid (map row_id (outbound_queue s)) (outbound_seq s),
                   status = Pending, retries = 0, next_retry_at = Some now,
                   created_at = now, updated_at = now, completed_at = None,
                   last_error = None, queue_type = qt,
                   run_id = (case runId p of None \<Rightarrow> [] | Some r \<Rightarrow> r),
                   session_key = sessionKey p, chat_id = chatId p, content = p_content p,
                   content_hash = h (p_content p), lark_message_id = None\<rparr>],
               outbound_seq := next_rowid (map row_id (outbound_queue s)) (outbound_seq s)\<rparr>))"
    by (rule enqueueOutbound_cases)
next
  assume "enqueueOutbound h now qt p s = (res, s0) \<and> enqueued res \<and> result_id res = Some i \<and>
    now \<le> t2 \<and> t2 - 10 * 60 * 1000 < t1 \<and>
    p_content p' = p_content p \<and> chatId p' = chatId p"
  then show "enqueueOutbound h t2 qt' p' (markOutboundCompleted t1 i lark s0) =
        (\<lparr>enqueued = False, reason = Some ''already_sent'', result_id = None,
          existing = None\<rparr>,
         markOutboundCompleted t1 i lark s0)"
    using enqueue_complete_reenqueue [of h now qt p s res s0 i t2 t1 p' qt' lark] by blast
next
  assume "selectOutbound j s = Some r \<and> content_hash r = h (p_content p) \<and>
    chat_id r = chatId p \<and> t2 - 10 * 60 * 1000 < t1"
  then show "enqueueOutbound h t2 qt p (markOutboundCompleted t1 j lark s) =
        (\<lparr>enqueued = False,
          reason = Some (if pending_duplicate (h (p_content p)) (chatId p) t2
                              (s\<lparr>outbound_queue :=
                                   filter (\<lambda>r'. row_id r' \<noteq> j) (outbound_queue s)\<rparr>)
                         then ''duplicate_pending'' else ''already_sent''),
          result_id = None, existing = None\<rparr>,
         markOutboundCompleted t1 j lark s)"
    using reenqueue_after_completed [of j s r h p t2 t1 qt lark] by blast
next
  assume "chatId q \<noteq> chatId p"
  from enqueueOutbound_other_chat [OF this, of h t2 qt t1 qt' s]
  show "enqueued (fst (enqueueOutbound h t2 qt p (snd (enqueueOutbound h t1 qt' q s)))) =
        enqueued (fst (enqueueOutbound h t2 qt p s))"
    and "reason (fst (enqueueOutbound h t2 qt p (snd (enqueueOutbound h t1 qt' q s)))) =
        reason (fst (enqueueOutbound h t2 qt p s))"
    by blast+
next
  assume "(\<forall>x \<in> set (outbound_queue s). chat_id x \<noteq> chatId p) \<and>
    (\<forall>x \<in> set (sent_messages s). sent_chat_id x \<noteq> chatId p)"
  then show "enqueued (fst (enqueueOutbound h now qt p s))"
    using enqueueOutbound_fresh_chat [of s p h now qt] by blast
qed


theorem C4_witness:
  "fst (enqueueOutbound (\<lambda>x. x) 1000 Reply demo_out_params empty_store) =
     \<lparr>enqueued = True, reason = None, result_id = Some 1, existing = None\<rparr> \<and>
   fst (enqueueOutbound (\<lambda>x. x) 1001 Mirror demo_out_params
          (snd (enqueueOutbound (\<lambda>x. x) 1000 Reply demo_out_params empty_store))) =
     \<lparr>enqueued = False, reason = Some ''duplicate_pending'', result_id = None,
      existing = None\<rparr> \<and>
   fst (enqueueOutbound (\<lambda>x. x) 3000 Reply demo_out_params
          (markOutboundCompleted 2000 1 (Some ''om_1'')
             (snd (enqueueOutbound (\<lambda>x. x) 1000 Reply demo_out_params empty_store)))) =
     \<lparr>enqueued = False, reason = Some ''already_sent'', result_id = None, existing = None\<rparr> \<and>
   enqueued (fst (enqueueOutbound (\<lambda>x. x) 1001 Reply (demo_out_params\<lparr>chatId := ''c2''\<rparr>)
          (snd (enqueueOutbound (\<lambda>x. x) 1000 Reply demo_out_params empty_store)))) \<and>
   selectOutbound 1 demo_store = Some demo_outbound \<and>
   fst (enqueueOutbound (\<lambda>x. x) 3000 Reply demo_out_params
          (markOutboundCompleted 2000 1 None demo_store)) =
     \<lparr>enqueued = False, reason = Some ''already_sent'', result_id = None, existing = None\<rparr>"
proof -
  let ?row = "\<lparr>row_id = 1, status = Pending, retries = 0, next_retry_at = Some 1000,
                created_at = 1000, updated_at = 1000, completed_at = None,
                last_error = None, queue_type = Reply, run_id = [],
                session_key = ''s'', chat_id = ''c1'', content = ''hi'',
                content_hash = ''hi'', lark_message_id = None\<rparr>"
  let ?s0 = "empty_store\<lparr>outbound_queue := [?row], outbound_seq := 1\<rparr>"
  let ?res = "\<lparr>enqueued = True, reason = None, result_id = Some 1, existing = None\<rparr>"
  have e0: "enqueueOutbound (\<lambda>x. x) 1000 Reply demo_out_params empty_store = (?res, ?s0)"
    by (simp add: enqueueOutbound_cases pending_duplicate_def recently_sent_def
        empty_store_def demo_out_params_def next_rowid_def)
  note t = C4_enqueueOutbound_two_phase_dedup [where h = "\<lambda>x. x" and now = 1000
      and qt = Reply and p = demo_out_params and s = empty_store and res = ?res
      and ?s0.0 = ?s0 and i = 1 and ?t2.0 = 3000 and ?t1.0 = 2000 and p' = demo_out_params
      and qt' = Reply and lark = "Some ''om_1''"]
  have hyp: "enqueueOutbound (\<lambda>x. x) 1000 Reply demo_out_params empty_store = (?res, ?s0) \<and>
      enqueued ?res \<and> result_id ?res = Some 1 \<and> (1000::int) \<le> 3000 \<and>
      (3000::int) - 10 * 60 * 1000 < 2000 \<and>
      p_content demo_out_params = p_content demo_out_params \<and>
      chatId demo_out_params = chatId demo_out_params"
    using e0 by simp
  from t hyp have sent: "enqueueOutbound (\<lambda>x. x) 3000 Reply demo_out_params
        (markOutboundCompleted 2000 1 (Some ''om_1'') ?s0) =
      (\<lparr>enqueued = False, reason = Some ''already_sent'', result_id = None, existing = None\<rparr>,
       markOutboundCompleted 2000 1 (Some ''om_1'') ?s0)"
    by blast
  have dup: "fst (enqueueOutbound (\<lambda>x. x) 1001 Mirror demo_out_params ?s0) =
     \<lparr>enqueued = False, reason = Some ''duplicate_pending'', result_id = None,
      existing = None\<rparr>"
    by (simp add: enqueueOutbound_cases pending_duplicate_def empty_store_def
        demo_out_params_def)
  have other: "enqueued (fst (enqueueOutbound (\<lambda>x. x) 1001 Reply
      (demo_out_params\<lparr>chatId := ''c2''\<rparr>) ?s0))"
    by (simp add: enqueueOutbound_cases pending_duplicate_def recently_sent_def
        empty_store_def demo_out_params_def)
  have sel: "selectOutbound 1 demo_store = Some demo_outbound"
    by (simp add: selectOutbound_def demo_store_def demo_outbound_def)
  note u = C4_enqueueOutbound_two_phase_dedup [where h = "\<lambda>x. x" and p = demo_out_params
      and s = demo_store and j = 1 and r = demo_outbound and ?t2.0 = 3000 and ?t1.0 = 2000
      and qt = Reply and lark = None]
  have hyp2: "selectOutbound 1 demo_store = Some demo_outbound \<and>
      content_hash demo_outbound = p_content demo_out_params \<and>
      chat_id demo_outbound = chatId demo_out_params \<and> (3000::int) - 10 * 60 * 1000 < 2000"
    using sel by (simp add: demo_outbound_def demo_out_params_def)
  have nd: "\<not> pending_duplicate (p_content demo_out_params) (chatId demo_out_params) 3000
      (demo_store\<lparr>outbound_queue := filter (\<lambda>r'. row_id r' \<noteq> 1) (outbound_queue demo_store)\<rparr>)"
    by (simp add: pending_duplicate_def demo_store_def demo_outbound_def)
  from u hyp2 have "enqueueOutbound (\<lambda>x. x) 3000 Reply demo_out_params
        (markOutboundCompleted 2000 1 None demo_store) =
        (\<lparr>enqueued = False,
          reason = Some (if pending_duplicate (p_content demo_out_params)
                              (chatId demo_out_params) 3000
                              (demo_store\<lparr>outbound_queue :=
                                   filter (\<lambda>r'. row_id r' \<noteq> 1) (outbound_queue demo_store)\<rparr>)
                         then ''duplicate_pending'' else ''already_sent''),
          result_id = None, existing = None\<rparr>,
         markOutboundCompleted 2000 1 None demo_store)"
    by blast
  with nd have sent2: "fst (enqueueOutbound (\<lambda>x. x) 3000 Reply demo_out_params
        (markOutboundCompleted 2000 1 None demo_store)) =
      \<lparr>enqueued = False, reason = Some ''already_sent'', result_id = None, existing = None\<rparr>"
    by simp
  from e0 sent dup other sel sent2 show ?thesis
    by simp
qed

subsection \<open>Rows in a final state\<close>

lemma nth_map_upd_other:
  "k < length rows \<Longrightarrow> row_id (rows ! k) \<noteq> i \<Longrightarrow>
   map (\<lambda>r. if row_id r = i then f r else r) rows ! k = rows ! k"
  by simp

lemma inbound_queue_enqueueInbound:
  "inbound_queue (snd (enqueueInbound now p s)) = inbound_queue s \<or>
   (\<exists>row. inbound_queue (snd (enqueueInbound now p s)) = inbound_queue s @ [row])"
  by (auto simp: enqueueInbound_def stmtEnqueueInbound_def Let_def split: option.splits)

lemma outbound_queue_enqueueInbound:
  "outbound_queue (snd (enqueueInbound now p s)) = outbound_queue s"
  by (auto simp: enqueueInbound_def stmtEnqueueInbound_def Let_def split: option.splits)

lemma outbound_queue_enqueueOutbound:
  "outbound_queue (snd (enqueueOutbound h now qt p s)) = outbound_queue s \<or>
   (\<exists>row. outbound_queue (snd (enqueueOutbound h now qt p s)) = outbound_queue s @ [row])"
  by (simp add: enqueueOutbound_cases)

lemma inbound_queue_enqueueOutbound:
  "inbound_queue (snd (enqueueOutbound h now qt p s)) = inbound_queue s"
  by (simp add: enqueueOutbound_cases)

lemma terminal_kept_inbound:
  assumes k: "k < length (inbound_queue s)" and t: "terminal (inbound_queue s ! k)"
    and op: "op \<noteq> Cleanup" and tgt: "inbound_target op \<noteq> Some (row_id (inbound_queue s ! k))"
  shows "k < length (inbound_queue (run_op h now op s)) \<and>
         inbound_queue (run_op h now op s) ! k = inbound_queue s ! k"
proof (cases op)
  case (EnqueueInbound p)
  with inbound_queue_enqueueInbound [of now p s] k show ?thesis
    by (auto simp: nth_append)
next
  case (EnqueueOutbound qt p)
  with k show ?thesis by (simp add: inbound_queue_enqueueOutbound)
next
  case (MarkInboundProcessing i)
  with k tgt show ?thesis
    by (simp add: markInboundProcessing_def stmtMarkInboundProcessing_def)
next
  case (MarkInboundCompleted i x)
  with k tgt show ?thesis
    by (simp add: markInboundCompleted_def stmtUpdateInbound_def Let_def)
next
  case (MarkInboundRetry i x)
  with k tgt show ?thesis
    by (simp add: markInboundRetry_def stmtUpdateInbound_def Let_def)
next
  case (MarkOutboundCompleted i x)
  with k show ?thesis
    by (simp add: markOutboundCompleted_def stmtUpdateOutbound_def stmtRecordSent_def Let_def
        split: option.split)
next
  case ResetStuckMessages
  with k t show ?thesis
    by (auto simp: resetStuckMessages_inbound terminal_def)
next
  case RecoverStuck
  with k t show ?thesis
    by (auto simp: recoverStuck_def terminal_def Let_def)
next
  case Cleanup
  with op show ?thesis by simp
qed (use k in \<open>simp_all add: dequeueInbound_def dequeueOutbound_def markOutboundProcessing_def
      stmtMarkOutboundProcessing_def markOutboundRetry_def stmtUpdateOutbound_def Let_def\<close>)

lemma terminal_kept_outbound:
  assumes k: "k < length (outbound_queue s)" and t: "terminal (outbound_queue s ! k)"
    and op: "op \<noteq> Cleanup" and tgt: "outbound_target op \<noteq> Some (row_id (outbound_queue s ! k))"
  shows "k < length (outbound_queue (run_op h now op s)) \<and>
         outbound_queue (run_op h now op s) ! k = outbound_queue s ! k"
proof (cases op)
  case (EnqueueOutbound qt p)
  with outbound_queue_enqueueOutbound [of h now qt p s] k show ?thesis
    by (auto simp: nth_append)
next
  case (EnqueueInbound p)
  with k show ?thesis by (simp add: outbound_queue_enqueueInbound)
next
  case (MarkOutboundProcessing i)
  with k tgt show ?thesis
    by (simp add: markOutboundProcessing_def stmtMarkOutboundProcessing_def)
next
  case (MarkOutboundCompleted i x)
  with k tgt show ?thesis
    by (simp add: markOutboundCompleted_queue)
next
  case (MarkOutboundRetry i x)
  with k tgt show ?thesis
    by (simp add: markOutboundRetry_def stmtUpdateOutbound_def Let_def)
next
  case ResetStuckMessages
  with k t show ?thesis
    by (auto simp: resetStuckMessages_outbound terminal_def)
next
  case RecoverStuck
  with k t show ?thesis
    by (auto simp: recoverStuck_def terminal_def Let_def)
next
  case Cleanup
  with op show ?thesis by simp
qed (use k in \<open>simp_all add: dequeueInbound_def dequeueOutbound_def markInboundProcessing_def
      stmtMarkInboundProcessing_def markInboundRetry_def markInboundCompleted_def
      stmtUpdateInbound_def Let_def\<close>)

lemma keys_kept:
  assumes "op \<noteq> Cleanup"
  shows "take (length (inbound_queue s)) (map row_id (inbound_queue (run_op h now op s))) =
           map row_id (inbound_queue s) \<and>
         take (length (outbound_queue s)) (map row_id (outbound_queue (run_op h now op s))) =
           map row_id (outbound_queue s)"
proof (cases op)
  case (EnqueueInbound p)
  with inbound_queue_enqueueInbound [of now p s] show ?thesis
    by (auto simp: outbound_queue_enqueueInbound)
next
  case (EnqueueOutbound qt p)
  with outbound_queue_enqueueOutbound [of h now qt p s] show ?thesis
    by (auto simp: inbound_queue_enqueueOutbound)
next
  case (MarkOutboundCompleted i x)
  then show ?thesis
    by (simp add: markOutboundCompleted_queue comp_def)
      (simp add: markOutboundCompleted_def stmtUpdateOutbound_def stmtRecordSent_def Let_def
        split: option.split)
next
  case Cleanup
  with assms show ?thesis by simp
qed (simp_all add: dequeueInbound_def dequeueOutbound_def markInboundProcessing_def
      stmtMarkInboundProcessing_def markInboundRetry_def markInboundCompleted_def
      stmtUpdateInbound_def markOutboundProcessing_def
      stmtMarkOutboundProcessing_def markOutboundRetry_def stmtUpdateOutbound_def
      resetStuckMessages_inbound resetStuckMessages_outbound recoverStuck_def Let_def comp_def)

lemma cleanup_tables:
  "inbound_queue (cleanup now s) =
     filter (\<lambda>r. \<not> (status r = Completed \<and> created_at r < now - MESSAGE_TTL_MS))
       (inbound_queue s) \<and>
   outbound_queue (cleanup now s) =
     filter (\<lambda>r. \<not> (status r = Completed \<and> created_at r < now - MESSAGE_TTL_MS))
       (outbound_queue s)"
  by (simp add: cleanup_def Let_def conj_commute)


lemma selectInbound_markInboundProcessing:
  assumes "selectInbound i s = Some r"
  shows "selectInbound i (markInboundProcessing now i s) =
         Some (r\<lparr>status := Processing, updated_at := now\<rparr>)"
  using assms selectInbound_id [OF assms]
  by (simp add: selectInbound_def markInboundProcessing_def stmtMarkInboundProcessing_def
      find_id_map_upd)

lemma selectOutbound_markOutboundProcessing:
  assumes "selectOutbound i s = Some r"
  shows "selectOutbound i (markOutboundProcessing now i s) =
         Some (r\<lparr>status := Processing, updated_at := now\<rparr>)"
  using assms selectOutbound_id [OF assms]
  by (simp add: selectOutbound_def markOutboundProcessing_def stmtMarkOutboundProcessing_def
      find_id_map_upd)

text \<open>
  Claim C8, as amended. For every row whose status is \<open>completed\<close> or
  \<open>failed_permanent\<close>: enqueue, dequeue and stuck-row recovery leave that row as it is,
  and so do \<^verbatim>\<open>markProcessing\<close>, \<^verbatim>\<open>markCompleted\<close> and \<^verbatim>\<open>markRetry\<close> unless
  they are called with that row's own key (first and second conjunct, per table: the
  row at position \<open>k\<close> is still at position \<open>k\<close> and equal). No operation other than
  the TTL cleanup removes a row (third conjunct: the keys of the table are kept in
  place). The cleanup deletes exactly the \<open>completed\<close> rows created more than 30 days
  before \<open>now\<close>, so never a \<open>failed_permanent\<close> row (fourth and fifth conjunct). The
  mark operations carry no condition on the status: \<^verbatim>\<open>markProcessing\<close> with the key of
  a row sets that row to \<open>processing\<close> whatever its status was (last two conjuncts).

  As stated, with the mark operations leaving every final row unchanged, the claim fails:
  see the counterexample below.
\<close>

theorem C8_terminal_rows_change_only_when_addressed:
  "(k < length (inbound_queue s) \<and> terminal (inbound_queue s ! k) \<and> op \<noteq> Cleanup \<and>
    inbound_target op \<noteq> Some (row_id (inbound_queue s ! k)) \<longrightarrow>
      k < length (inbound_queue (run_op h now op s)) \<and>
      inbound_queue (run_op h now op s) ! k = inbound_queue s ! k) \<and>
   (k < length (outbound_queue s) \<and> terminal (outbound_queue s ! k) \<and> op \<noteq> Cleanup \<and>
    outbound_target op \<noteq> Some (row_id (outbound_queue s ! k)) \<longrightarrow>
      k < length (outbound_queue (run_op h now op s)) \<and>
      outbound_queue (run_op h now op s) ! k = outbound_queue s ! k) \<and>
   (op \<noteq> Cleanup \<longrightarrow>
      take (length (inbound_queue s)) (map row_id (inbound_queue (run_op h now op s))) =
        map row_id (inbound_queue s) \<and>
      take (length (outbound_queue s)) (map row_id (outbound_queue (run_op h now op s))) =
        map row_id (outbound_queue s)) \<and>
   inbound_queue (run_op h now Cleanup s) =
     filter (\<lambda>r. \<not> (status r = Completed \<and> created_at r < now - 30 * 24 * 60 * 60 * 1000))
       (inbound_queue s) \<and>
   outbound_queue (run_op h now Cleanup s) =
     filter (\<lambda>r. \<not> (status r = Completed \<and> created_at r < now - 30 * 24 * 60 * 60 * 1000))
       (outbound_queue s) \<and>
   (selectInbound i s = Some ri \<longrightarrow>
      selectInbound i (run_op h now (MarkInboundProcessing i) s) =
        Some (ri\<lparr>status := Processing, updated_at := now\<rparr>)) \<and>
   (selectOutbound j s = Some ro \<longrightarrow>
      selectOutbound j (run_op h now (MarkOutboundProcessing j) s) =
        Some (ro\<lparr>status := Processing, updated_at := now\<rparr>))"
  using terminal_kept_inbound [of k s op h now] terminal_kept_outbound [of k s op h now]
    keys_kept [of op s h now] cleanup_tables [of now s]
    selectInbound_markInboundProcessing [of i s ri now]
    selectOutbound_markOutboundProcessing [of j s ro now]
  by (simp add: MESSAGE_TTL_MS_def)

text \<open>
  The claim as stated fails on a store whose rows are final: \<^verbatim>\<open>markInboundProcessing\<close>
  with the key of a completed row turns it to \<open>processing\<close>, \<^verbatim>\<open>markInboundCompleted\<close>
  with the key of a \<open>failed_permanent\<close> row turns it to \<open>completed\<close>, and
  \<^verbatim>\<open>markOutboundRetry\<close> with the key of a completed row returns it to \<open>pending\<close> with
  one more retry.
\<close>

theorem C8_counterexample:
  "terminal (inbound_queue done_store ! 0) \<and>
   inbound_queue (run_op (\<lambda>x. x) 5000 (MarkInboundProcessing 1) done_store) ! 0 \<noteq>
     inbound_queue done_store ! 0 \<and>
   status (inbound_queue (run_op (\<lambda>x. x) 5000 (MarkInboundProcessing 1) done_store) ! 0) =
     Processing \<and>
   terminal (inbound_queue done_store ! 1) \<and>
   status (inbound_queue done_store ! 1) = FailedPermanent \<and>
   status (inbound_queue (run_op (\<lambda>x. x) 5000 (MarkInboundCompleted 2 ''late'') done_store) ! 1) =
     Completed \<and>
   terminal (outbound_queue done_store ! 0) \<and>
   status (outbound_queue done_store ! 0) = Completed \<and>
   status (outbound_queue (run_op (\<lambda>x. x) 5000 (MarkOutboundRetry 1 ''again'') done_store) ! 0) =
     Pending \<and>
   retries (outbound_queue (run_op (\<lambda>x. x) 5000 (MarkOutboundRetry 1 ''again'') done_store) ! 0) =
     1"
  by (simp add: done_store_def terminal_def demo_inbound_def demo_outbound_def
      markInboundProcessing_def stmtMarkInboundProcessing_def markInboundCompleted_def
      stmtUpdateInbound_def selectInbound_def markOutboundRetry_def stmtUpdateOutbound_def
      selectOutbound_def hasExceededMaxRetries_def MAX_RETRIES_def Let_def)


theorem C8_witness:
  "0 < length (inbound_queue done_store) \<and> terminal (inbound_queue done_store ! 0) \<and>
   MarkInboundProcessing 2 \<noteq> Cleanup \<and>
   inbound_target (MarkInboundProcessing 2) \<noteq> Some (row_id (inbound_queue done_store ! 0)) \<and>
   inbound_queue (run_op (\<lambda>x. x) 5000 (MarkInboundProcessing 2) done_store) ! 0 =
     inbound_queue done_store ! 0 \<and>
   0 < length (outbound_queue done_store) \<and> terminal (outbound_queue done_store ! 0) \<and>
   outbound_target (MarkInboundProcessing 2) \<noteq> Some (row_id (outbound_queue done_store ! 0)) \<and>
   outbound_queue (run_op (\<lambda>x. x) 5000 (MarkInboundProcessing 2) done_store) ! 0 =
     outbound_queue done_store ! 0 \<and>
   map row_id (inbound_queue (run_op (\<lambda>x. x) 5000 (MarkInboundProcessing 2) done_store)) =
     [1, 2] \<and>
   inbound_queue (run_op (\<lambda>x. x) 2592001001 Cleanup done_store) =
     [demo_inbound\<lparr>row_id := 2, status := FailedPermanent, retries := 120,
        next_retry_at := None, last_error := Some ''Gateway timeout'',
        message_id := ''m2''\<rparr>] \<and>
   outbound_queue (run_op (\<lambda>x. x) 2592001001 Cleanup done_store) = [] \<and>
   selectInbound 1 done_store =
     Some (demo_inbound\<lparr>status := Completed, completed_at := Some 1500,
             response_text := Some ''delivered''\<rparr>) \<and>
   selectInbound 1 (run_op (\<lambda>x. x) 5000 (MarkInboundProcessing 1) done_store) =
     Some (demo_inbound\<lparr>status := Completed, completed_at := Some 1500,
             response_text := Some ''delivered''\<rparr>
           \<lparr>status := Processing, updated_at := 5000\<rparr>)"
proof -
  let ?r0 = "demo_inbound\<lparr>status := Completed, completed_at := Some 1500,
             response_text := Some ''delivered''\<rparr>"
  note t = C8_terminal_rows_change_only_when_addressed [where k = 0 and s = done_store
      and op = "MarkInboundProcessing 2" and h = "\<lambda>x. x" and now = 5000]
  note u = C8_terminal_rows_change_only_when_addressed [where s = done_store
      and h = "\<lambda>x. x" and now = 2592001001]
  note v = C8_terminal_rows_change_only_when_addressed [where s = done_store
      and h = "\<lambda>x. x" and now = 5000 and i = 1 and ri = ?r0]
  have h1: "0 < length (inbound_queue done_store)" "terminal (inbound_queue done_store ! 0)"
    "MarkInboundProcessing 2 \<noteq> Cleanup"
    "inbound_target (MarkInboundProcessing 2) \<noteq> Some (row_id (inbound_queue done_store ! 0))"
    by (simp_all add: done_store_def terminal_def demo_inbound_def)
  have h2: "0 < length (outbound_queue done_store)" "terminal (outbound_queue done_store ! 0)"
    "outbound_target (MarkInboundProcessing 2) \<noteq> Some (row_id (outbound_queue done_store ! 0))"
    by (simp_all add: done_store_def terminal_def)
  from t h1 have c1: "inbound_queue (run_op (\<lambda>x. x) 5000 (MarkInboundProcessing 2) done_store) ! 0 =
     inbound_queue done_store ! 0"
    by blast
  from t h1(3) h2 have c2:
    "outbound_queue (run_op (\<lambda>x. x) 5000 (MarkInboundProcessing 2) done_store) ! 0 =
     outbound_queue done_store ! 0"
    by blast
  from t h1(3) have "take (length (inbound_queue done_store))
      (map row_id (inbound_queue (run_op (\<lambda>x. x) 5000 (MarkInboundProcessing 2) done_store))) =
      map row_id (inbound_queue done_store)"
    by blast
  then have c3:
    "map row_id (inbound_queue (run_op (\<lambda>x. x) 5000 (MarkInboundProcessing 2) done_store)) =
     [1, 2]"
    by (simp add: done_store_def demo_inbound_def markInboundProcessing_def
        stmtMarkInboundProcessing_def)
  from u have "inbound_queue (run_op (\<lambda>x. x) 2592001001 Cleanup done_store) =
     filter (\<lambda>r. \<not> (status r = Completed \<and> created_at r < 2592001001 - 30 * 24 * 60 * 60 * 1000))
       (inbound_queue done_store)"
    by blast
  then have c4: "inbound_queue (run_op (\<lambda>x. x) 2592001001 Cleanup done_store) =
     [demo_inbound\<lparr>row_id := 2, status := FailedPermanent, retries := 120,
        next_retry_at := None, last_error := Some ''Gateway timeout'',
        message_id := ''m2''\<rparr>]"
    by (simp add: done_store_def demo_inbound_def)
  from u have "outbound_queue (run_op (\<lambda>x. x) 2592001001 Cleanup done_store) =
     filter (\<lambda>r. \<not> (status r = Completed \<and> created_at r < 2592001001 - 30 * 24 * 60 * 60 * 1000))
       (outbound_queue done_store)"
    by blast
  then have c5: "outbound_queue (run_op (\<lambda>x. x) 2592001001 Cleanup done_store) = []"
    by (simp add: done_store_def demo_outbound_def)
  have h3: "selectInbound 1 done_store = Some ?r0"
    by (simp add: selectInbound_def done_store_def demo_inbound_def)
  from v h3 have c6: "selectInbound 1 (run_op (\<lambda>x. x) 5000 (MarkInboundProcessing 1) done_store) =
     Some (?r0\<lparr>status := Processing, updated_at := 5000\<rparr>)"
    by blast
  show ?thesis
    using h1 c1 h2 c2 c3 c4 c5 h3 c6 by blast
qed

subsection \<open>The send loop\<close>

lemma length_split_on: "length (split_on sep s) = Suc (length (filter (\<lambda>c. c = sep) s))"
  by (induction s) (auto split: list.splits)

lemma denied_is_non_retryable: "isNonRetryable denied"
  by (simp add: denied_def isNonRetryable_def is_digit_def is_word_char_def Number_def
      NON_RETRYABLE_CODES_def)

lemma send_loop_stops:
  assumes "attempt \<le> SEND_MAX_RETRIES" and "client attempt = Resolved False mid err"
    and "stop (case err of None \<Rightarrow> ''Unknown error'' | Some x \<Rightarrow> x)"
  shows "send_loop stop client msgType chat cont sk attempt lastError =
         (Failed (Some (case err of None \<Rightarrow> ''Unknown error'' | Some x \<Rightarrow> x)),
          [if msgType = Text then SendText chat cont else SendCard chat cont sk])"
  using assms by (subst send_loop.simps) (simp add: Let_def)

lemma send_loop_never_stopping:
  assumes "\<And>k. client k = Resolved False mid (Some e)" and "attempt \<le> SEND_MAX_RETRIES"
    and "SEND_MAX_RETRIES - attempt = n"
  shows "fst (send_loop (\<lambda>e. False) client msgType chat cont sk attempt lastError) =
           Failed (Some e) \<and>
         length (filter is_call
           (snd (send_loop (\<lambda>e. False) client msgType chat cont sk attempt lastError))) =
           Suc n \<and>
         length (filter (\<lambda>x. \<not> is_call x)
           (snd (send_loop (\<lambda>e. False) client msgType chat cont sk attempt lastError))) = n"
  using assms(2,3)
proof (induction n arbitrary: attempt lastError)
  case 0
  then have a: "attempt = SEND_MAX_RETRIES" by simp
  have "\<not> Suc SEND_MAX_RETRIES \<le> SEND_MAX_RETRIES" by simp
  then have b: "send_loop (\<lambda>e. False) client msgType chat cont sk (Suc SEND_MAX_RETRIES) (Some e) =
      (Failed (Some e), [])"
    by (subst send_loop.simps) simp
  show ?case
    unfolding a by (subst send_loop.simps, simp add: assms(1) b Let_def)+
next
  case (Suc n)
  then have lt: "attempt < SEND_MAX_RETRIES" and le: "Suc attempt \<le> SEND_MAX_RETRIES"
    and n: "SEND_MAX_RETRIES - Suc attempt = n"
    by simp_all
  note ih = Suc.IH [OF le n, of "Some e"]
  obtain r tr where rt:
    "send_loop (\<lambda>e. False) client msgType chat cont sk (Suc attempt) (Some e) = (r, tr)"
    by (cases "send_loop (\<lambda>e. False) client msgType chat cont sk (Suc attempt) (Some e)")
  have step: "send_loop (\<lambda>e. False) client msgType chat cont sk attempt lastError =
      (r, (if msgType = Text then SendText chat cont else SendCard chat cont sk) #
          Sleep (calculateSendBackoff attempt) # tr)"
    using lt by (subst send_loop.simps) (simp add: assms(1) rt Let_def)
  from ih show ?case
    unfolding step rt by simp
qed

lemma sleep_total:
  assumes "\<And>k. client k = Resolved False mid (Some e)" and "attempt \<le> SEND_MAX_RETRIES"
    and "SEND_MAX_RETRIES - attempt = n"
  shows "sum_list (map sleep_ms
           (snd (send_loop (\<lambda>e. False) client msgType chat cont sk attempt lastError))) =
         sum_list (map calculateSendBackoff [attempt..<SEND_MAX_RETRIES])"
  using assms(2,3)
proof (induction n arbitrary: attempt lastError)
  case 0
  then have a: "attempt = SEND_MAX_RETRIES" by simp
  have "\<not> Suc SEND_MAX_RETRIES \<le> SEND_MAX_RETRIES" by simp
  then have b: "send_loop (\<lambda>e. False) client msgType chat cont sk (Suc SEND_MAX_RETRIES) (Some e) =
      (Failed (Some e), [])"
    by (subst send_loop.simps) simp
  show ?case
    unfolding a by (subst send_loop.simps) (simp add: assms(1) b Let_def)
next
  case (Suc n)
  then have lt: "attempt < SEND_MAX_RETRIES" and le: "Suc attempt \<le> SEND_MAX_RETRIES"
    and n: "SEND_MAX_RETRIES - Suc attempt = n"
    by simp_all
  note ih = Suc.IH [OF le n, of "Some e"]
  obtain r tr where rt:
    "send_loop (\<lambda>e. False) client msgType chat cont sk (Suc attempt) (Some e) = (r, tr)"
    by (cases "send_loop (\<lambda>e. False) client msgType chat cont sk (Suc attempt) (Some e)")
  have step: "send_loop (\<lambda>e. False) client msgType chat cont sk attempt lastError =
      (r, (if msgType = Text then SendText chat cont else SendCard chat cont sk) #
          Sleep (calculateSendBackoff attempt) # tr)"
    using lt by (subst send_loop.simps) (simp add: assms(1) rt Let_def)
  from ih lt show ?case
    unfolding step rt by (simp add: upt_conv_Cons)
qed

lemma backoff_sum: "sum_list (map calculateSendBackoff [1..<120]) = 771391000"
  by (simp add: upt_rec [of _ "numeral n" for n] calculateSendBackoff_def SEND_RETRY_BASE_MS_def
      SEND_RETRY_MAX_MS_def)

text \<open>
  Claim C2. Within one queue-processing attempt of the outbound sender, a send that
  fails with an error carrying one of the non-retryable codes ends the inner retry loop
  at once, with no sleep and no further attempt, and the error is returned so that the
  failure reaches the queue layer's own retry.

  The built dist/src/channel.js does this (\<open>dist_loop_stops_on_non_retryable_code\<close>
  below). The same function in src/channel.ts has no such test. Against a transport that
  rejects every call with code 230001 (permission denied), a code of the set, the
  source file's loop makes all 120 calls and sleeps 119 times, 771391000 ms in all (close
  to nine days), before it returns the error; the built file returns it after one call.
\<close>

theorem C2_source_loop_retries_non_retryable_error:
  "isNonRetryable denied \<and>
   fst (sendToLarkWithRetry denying_client ''c1'' ''hi'' None) = Failed (Some denied) \<and>
   length (filter is_call (snd (sendToLarkWithRetry denying_client ''c1'' ''hi'' None))) = 120 \<and>
   length (filter (\<lambda>x. \<not> is_call x)
     (snd (sendToLarkWithRetry denying_client ''c1'' ''hi'' None))) = 119 \<and>
   sum_list (map sleep_ms (snd (sendToLarkWithRetry denying_client ''c1'' ''hi'' None))) =
     771391000 \<and>
   sendToLarkWithRetry_dist denying_client ''c1'' ''hi'' None =
     (Failed (Some denied), [SendText ''c1'' ''hi''])"
proof -
  have ty: "selectMessageType (Some ''hi'') = Text"
    by (simp add: selectMessageType_def)
  have cl: "\<And>k. denying_client k = Resolved False None (Some denied)"
    by (simp add: denying_client_def)
  have one: "(1::nat) \<le> SEND_MAX_RETRIES" and n: "SEND_MAX_RETRIES - 1 = 119"
    by (simp_all add: SEND_MAX_RETRIES_def)
  note a = send_loop_never_stopping [of denying_client None denied 1 119 Text "''c1''" "''hi''"
      None None, OF cl one n]
  note b = sleep_total [of denying_client None denied 1 119 Text "''c1''" "''hi''"
      None None, OF cl one n]
  have c: "send_loop isNonRetryable denying_client Text ''c1'' ''hi'' None 1 None =
      (Failed (Some denied), [SendText ''c1'' ''hi''])"
    using send_loop_stops [of 1 denying_client None "Some denied" isNonRetryable Text
        "''c1''" "''hi''" None None] one cl denied_is_non_retryable
    by simp
  have "sum_list (map calculateSendBackoff [1..<SEND_MAX_RETRIES]) = 771391000"
    using backoff_sum by (simp only: SEND_MAX_RETRIES_def)
  with b have b': "sum_list (map sleep_ms
      (snd (send_loop (\<lambda>e. False) denying_client Text ''c1'' ''hi'' None 1 None))) = 771391000"
    by (rule trans)
  from a b' c show ?thesis
    by (simp add: sendToLarkWithRetry_def sendToLarkWithRetry_dist_def ty
        denied_is_non_retryable)
qed

text \<open>
  The loop of the built file, entered at any attempt whose call resolves unsuccessfully
  with an error text that carries a non-retryable code, returns that error with the one
  call as its only effect: no sleep, no further attempt. When this happens at the first
  attempt for a dequeued row, the queue loop hands the error to \<^verbatim>\<open>markOutboundRetry\<close>.
  The code is read by the first-match rule of \<^const>\<open>match_code\<close>, and only from a
  resolved result: an error thrown by the call is retried whatever its text.
\<close>

theorem dist_loop_stops_on_non_retryable_code:
  "(attempt \<le> SEND_MAX_RETRIES \<and> client attempt = Resolved False mid (Some e) \<and>
    isNonRetryable e \<longrightarrow>
      send_loop isNonRetryable client msgType chat cont sk attempt lastError =
        (Failed (Some e), [if msgType = Text then SendText chat cont else SendCard chat cont sk])) \<and>
   (selectMessageType (Some (content msg)) \<noteq> Skip \<and>
    client 1 = Resolved False mid (Some e) \<and> isNonRetryable e \<longrightarrow>
      processOutboundItem (sendToLarkWithRetry_dist client) tp tc msg s =
        (markOutboundRetry tc (row_id msg) e (markOutboundProcessing tp (row_id msg) s),
         [if selectMessageType (Some (content msg)) = Text
          then SendText (chat_id msg) (content msg)
          else SendCard (chat_id msg) (content msg) (Some (session_key msg))]))"
proof (intro conjI impI)
  assume "attempt \<le> SEND_MAX_RETRIES \<and> client attempt = Resolved False mid (Some e) \<and>
    isNonRetryable e"
  then show "send_loop isNonRetryable client msgType chat cont sk attempt lastError =
        (Failed (Some e), [if msgType = Text then SendText chat cont else SendCard chat cont sk])"
    using send_loop_stops [of attempt client mid "Some e" isNonRetryable msgType chat cont sk
        lastError]
    by simp
next
  assume a: "selectMessageType (Some (content msg)) \<noteq> Skip \<and>
    client 1 = Resolved False mid (Some e) \<and> isNonRetryable e"
  have one: "(1::nat) \<le> SEND_MAX_RETRIES"
    by (simp add: SEND_MAX_RETRIES_def)
  from a one have "sendToLarkWithRetry_dist client (chat_id msg) (content msg)
      (Some (session_key msg)) =
      (Failed (Some e),
       [if selectMessageType (Some (content msg)) = Text
        then SendText (chat_id msg) (content msg)
        else SendCard (chat_id msg) (content msg) (Some (session_key msg))])"
    using send_loop_stops [of 1 client mid "Some e" isNonRetryable
        "selectMessageType (Some (content msg))" "chat_id msg" "content msg"
        "Some (session_key msg)" None]
    by (simp add: sendToLarkWithRetry_dist_def Let_def)
  then show "processOutboundItem (sendToLarkWithRetry_dist client) tp tc msg s =
        (markOutboundRetry tc (row_id msg) e (markOutboundProcessing tp (row_id msg) s),
         [if selectMessageType (Some (content msg)) = Text
          then SendText (chat_id msg) (content msg)
          else SendCard (chat_id msg) (content msg) (Some (session_key msg))])"
    by (simp add: processOutboundItem_def Let_def)
qed

theorem dist_loop_stops_witness:
  "(1::nat) \<le> SEND_MAX_RETRIES \<and> denying_client 1 = Resolved False None (Some denied) \<and>
   isNonRetryable denied \<and>
   send_loop isNonRetryable denying_client Text ''c1'' ''hi'' None 1 None =
     (Failed (Some denied), [SendText ''c1'' ''hi'']) \<and>
   selectMessageType (Some (content demo_outbound)) = Text \<and>
   processOutboundItem (sendToLarkWithRetry_dist denying_client) 2000 2001 demo_outbound
       demo_store =
     (markOutboundRetry 2001 (row_id demo_outbound) denied
        (markOutboundProcessing 2000 (row_id demo_outbound) demo_store),
      [SendText (chat_id demo_outbound) (content demo_outbound)])"
proof -
  note t = dist_loop_stops_on_non_retryable_code [where attempt = 1
      and client = denying_client and mid = None and e = denied and msgType = Text
      and chat = "''c1''" and cont = "''hi''" and sk = None and lastError = None
      and msg = demo_outbound and tp = 2000 and tc = 2001 and s = demo_store]
  have h: "(1::nat) \<le> SEND_MAX_RETRIES" "denying_client 1 = Resolved False None (Some denied)"
    "isNonRetryable denied"
    by (simp_all add: SEND_MAX_RETRIES_def denying_client_def denied_is_non_retryable)
  have ty: "selectMessageType (Some (content demo_outbound)) = Text"
    by (simp add: selectMessageType_def demo_outbound_def)
  then have ns: "selectMessageType (Some (content demo_outbound)) \<noteq> Skip"
    by simp
  from t h have c1: "send_loop isNonRetryable denying_client Text ''c1'' ''hi'' None 1 None =
     (Failed (Some denied), [if Text = Text then SendText ''c1'' ''hi''
                             else SendCard ''c1'' ''hi'' None])"
    by blast
  from t h ns have c2: "processOutboundItem (sendToLarkWithRetry_dist denying_client) 2000 2001
       demo_outbound demo_store =
     (markOutboundRetry 2001 (row_id demo_outbound) denied
        (markOutboundProcessing 2000 (row_id demo_outbound) demo_store),
      [if selectMessageType (Some (content demo_outbound)) = Text
          then SendText (chat_id demo_outbound) (content demo_outbound)
          else SendCard (chat_id demo_outbound) (content demo_outbound)
                 (Some (session_key demo_outbound))])"
    by blast
  from c1 c2 h ty show ?thesis
    by simp
qed

subsection \<open>Message types and skipped rows\<close>

lemma selectOutbound_markOutboundCompleted:
  assumes "selectOutbound i s = Some r"
  shows "selectOutbound i (markOutboundCompleted t i lark s) =
         Some (r\<lparr>status := Completed, updated_at := t, retries := retries r,
                 next_retry_at := None, last_error := None, completed_at := Some t,
                 lark_message_id := lark\<rparr>)"
proof -
  let ?f = "\<lambda>x. x\<lparr>status := Completed, updated_at := t, retries := retries r,
                 next_retry_at := None, last_error := None, completed_at := Some t,
                 lark_message_id := lark\<rparr>"
  have q: "outbound_queue (markOutboundCompleted t i lark s) =
           map (\<lambda>x. if row_id x = i then ?f x else x) (outbound_queue s)"
    unfolding markOutboundCompleted_queue using assms by simp
  have "find (\<lambda>x. row_id x = i) (map (\<lambda>x. if row_id x = i then ?f x else x) (outbound_queue s)) =
        map_option (\<lambda>x. if row_id x = i then ?f x else x)
          (find (\<lambda>x. row_id x = i) (outbound_queue s))"
    by (rule find_id_map_upd) simp
  also have "\<dots> = Some (?f r)"
    using assms selectOutbound_id [OF assms] by (simp add: selectOutbound_def)
  finally show ?thesis
    unfolding selectOutbound_def q .
qed

lemma skip_sends_nothing:
  assumes "selectMessageType (Some cont) = Skip"
  shows "sendToLarkWithRetry client chat cont sk = (Skipped, [])"
    and "sendToLarkWithRetry_dist client chat cont sk = (Skipped, [])"
  using assms by (simp_all add: sendToLarkWithRetry_def sendToLarkWithRetry_dist_def)

lemma skip_completes_row:
  assumes "send (chat_id msg) (content msg) (Some (session_key msg)) = (Skipped, [])"
  shows "processOutboundItem send tp tc msg s =
         (markOutboundCompleted tc (row_id msg) None
            (markOutboundProcessing tp (row_id msg) s), [])"
  using assms by (simp add: processOutboundItem_def Let_def)

lemma three_paragraphs_interactive: "selectMessageType (Some three_paragraphs) = Interactive"
  by (simp add: selectMessageType_def three_paragraphs_def)

text \<open>
  Claim C9. The message-type classifier is a function of the text alone: an absent or
  empty text and the two sentinels \<open>NO_REPLY\<close> and \<open>HEARTBEAT_OK\<close> give \<open>skip\<close>; any
  other text that is short, fewer than 100 characters (the bound the README states),
  and has at most 2 lines gives plain text; every other text gives the rich
  (interactive) type. The number of lines is the number of pieces of
  \<^verbatim>\<open>split('\n')\<close>, one more than the number of newline characters. In particular
  \<open>NO_REPLY\<close> is skipped, \<open>hi\<close> is plain text and a text of three paragraphs is rich.
  A skipped item counts as a success with nothing sent: \<^verbatim>\<open>sendToLarkWithRetry\<close> (of
  either file) returns \<open>{skipped: true}\<close> without an effect on the transport, and the
  queue loop marks the row processing and then completed with no delivered message id,
  its retries unchanged.
\<close>

theorem C9_message_type_classifier:
  "(input = None \<or> input = Some [] \<or> input = Some ''NO_REPLY'' \<or>
    input = Some ''HEARTBEAT_OK'' \<longrightarrow>
      selectMessageType input = Skip) \<and>
   (t \<noteq> [] \<and> t \<noteq> ''NO_REPLY'' \<and> t \<noteq> ''HEARTBEAT_OK'' \<and>
    length t < 100 \<and> length (split_on (CHR 0x0A) t) \<le> 2 \<longrightarrow>
      selectMessageType (Some t) = Text) \<and>
   (t \<noteq> [] \<and> t \<noteq> ''NO_REPLY'' \<and> t \<noteq> ''HEARTBEAT_OK'' \<and>
    \<not> (length t < 100 \<and> length (split_on (CHR 0x0A) t) \<le> 2) \<longrightarrow>
      selectMessageType (Some t) = Interactive) \<and>
   length (split_on (CHR 0x0A) t) = Suc (length (filter (\<lambda>c. c = CHR 0x0A) t)) \<and>
   selectMessageType (Some ''NO_REPLY'') = Skip \<and>
   selectMessageType (Some ''hi'') = Text \<and>
   selectMessageType (Some three_paragraphs) = Interactive \<and>
   (selectMessageType (Some (content msg)) = Skip \<longrightarrow>
      sendToLarkWithRetry client (chat_id msg) (content msg) (Some (session_key msg)) =
        (Skipped, []) \<and>
      sendToLarkWithRetry_dist client (chat_id msg) (content msg) (Some (session_key msg)) =
        (Skipped, []) \<and>
      processOutboundItem (sendToLarkWithRetry client) tp tc msg s =
        (markOutboundCompleted tc (row_id msg) None
           (markOutboundProcessing tp (row_id msg) s), []) \<and>
      processOutboundItem (sendToLarkWithRetry_dist client) tp tc msg s =
        (markOutboundCompleted tc (row_id msg) None
           (markOutboundProcessing tp (row_id msg) s), []) \<and>
      (selectOutbound (row_id msg) s = Some r \<longrightarrow>
         (\<exists>r'. selectOutbound (row_id msg)
                  (fst (processOutboundItem (sendToLarkWithRetry client) tp tc msg s)) =
                  Some r' \<and>
               status r' = Completed \<and> lark_message_id r' = None \<and>
               retries r' = retries r)))"
proof (intro conjI impI)
  assume "input = None \<or> input = Some [] \<or> input = Some ''NO_REPLY'' \<or>
    input = Some ''HEARTBEAT_OK''"
  then show "selectMessageType input = Skip"
    by (auto simp: selectMessageType_def)
next
  assume "t \<noteq> [] \<and> t \<noteq> ''NO_REPLY'' \<and> t \<noteq> ''HEARTBEAT_OK'' \<and>
    length t < 100 \<and> length (split_on (CHR 0x0A) t) \<le> 2"
  then show "selectMessageType (Some t) = Text"
    by (simp add: selectMessageType_def)
next
  assume "t \<noteq> [] \<and> t \<noteq> ''NO_REPLY'' \<and> t \<noteq> ''HEARTBEAT_OK'' \<and>
    \<not> (length t < 100 \<and> length (split_on (CHR 0x0A) t) \<le> 2)"
  then show "selectMessageType (Some t) = Interactive"
    by (simp add: selectMessageType_def)
next
  show "length (split_on (CHR 0x0A) t) = Suc (length (filter (\<lambda>c. c = CHR 0x0A) t))"
    by (rule length_split_on)
  show "selectMessageType (Some ''NO_REPLY'') = Skip"
    by (simp add: selectMessageType_def)
  show "selectMessageType (Some ''hi'') = Text"
    by (simp add: selectMessageType_def)
  show "selectMessageType (Some three_paragraphs) = Interactive"
    by (rule three_paragraphs_interactive)
next
  assume skip: "selectMessageType (Some (content msg)) = Skip"
  note a = skip_sends_nothing [OF skip]
  show "sendToLarkWithRetry client (chat_id msg) (content msg) (Some (session_key msg)) =
        (Skipped, [])"
    and "sendToLarkWithRetry_dist client (chat_id msg) (content msg) (Some (session_key msg)) =
        (Skipped, [])"
    by (rule a)+
  show b: "processOutboundItem (sendToLarkWithRetry client) tp tc msg s =
        (markOutboundCompleted tc (row_id msg) None
           (markOutboundProcessing tp (row_id msg) s), [])"
    by (rule skip_completes_row) (rule a)
  show "processOutboundItem (sendToLarkWithRetry_dist client) tp tc msg s =
        (markOutboundCompleted tc (row_id msg) None
           (markOutboundProcessing tp (row_id msg) s), [])"
    by (rule skip_completes_row) (rule a)
  assume sel: "selectOutbound (row_id msg) s = Some r"
  from selectOutbound_markOutboundCompleted
    [OF selectOutbound_markOutboundProcessing [OF sel, of tp], of tc None]
  show "\<exists>r'. selectOutbound (row_id msg)
                  (fst (processOutboundItem (sendToLarkWithRetry client) tp tc msg s)) =
                  Some r' \<and>
               status r' = Completed \<and> lark_message_id r' = None \<and>
               retries r' = retries r"
    unfolding b by simp
qed

theorem C9_witness:
  "selectMessageType None = Skip \<and>
   selectMessageType (Some ''NO_REPLY'') = Skip \<and>
   ''hi'' \<noteq> [] \<and> ''hi'' \<noteq> ''NO_REPLY'' \<and> ''hi'' \<noteq> ''HEARTBEAT_OK'' \<and>
   length ''hi'' < 100 \<and> length (split_on (CHR 0x0A) ''hi'') \<le> 2 \<and>
   selectMessageType (Some ''hi'') = Text \<and>
   three_paragraphs \<noteq> [] \<and> three_paragraphs \<noteq> ''NO_REPLY'' \<and>
   three_paragraphs \<noteq> ''HEARTBEAT_OK'' \<and>
   \<not> (length three_paragraphs < 100 \<and> length (split_on (CHR 0x0A) three_paragraphs) \<le> 2) \<and>
   length (split_on (CHR 0x0A) three_paragraphs) = 5 \<and>
   selectMessageType (Some three_paragraphs) = Interactive \<and>
   selectMessageType (Some (content (demo_outbound\<lparr>content := ''NO_REPLY''\<rparr>))) = Skip \<and>
   processOutboundItem (sendToLarkWithRetry denying_client) 2000 2001
       (demo_outbound\<lparr>content := ''NO_REPLY''\<rparr>) demo_store =
     (markOutboundCompleted 2001 (row_id (demo_outbound\<lparr>content := ''NO_REPLY''\<rparr>)) None
        (markOutboundProcessing 2000 (row_id (demo_outbound\<lparr>content := ''NO_REPLY''\<rparr>))
           demo_store), []) \<and>
   selectOutbound (row_id (demo_outbound\<lparr>content := ''NO_REPLY''\<rparr>)) demo_store =
     Some demo_outbound \<and>
   (\<exists>r'. selectOutbound (row_id (demo_outbound\<lparr>content := ''NO_REPLY''\<rparr>))
            (fst (processOutboundItem (sendToLarkWithRetry denying_client) 2000 2001
                    (demo_outbound\<lparr>content := ''NO_REPLY''\<rparr>) demo_store)) = Some r' \<and>
         status r' = Completed \<and> lark_message_id r' = None \<and>
         retries r' = retries demo_outbound)"
proof -
  let ?m = "demo_outbound\<lparr>content := ''NO_REPLY''\<rparr>"
  note t = C9_message_type_classifier [where input = None and t = "''hi''" and msg = ?m
      and client = denying_client and tp = 2000 and tc = 2001 and s = demo_store
      and r = demo_outbound]
  note u = C9_message_type_classifier [where t = three_paragraphs]
  have h1: "''hi'' \<noteq> []" "''hi'' \<noteq> ''NO_REPLY''" "''hi'' \<noteq> ''HEARTBEAT_OK''"
    "length ''hi'' < 100" "length (split_on (CHR 0x0A) ''hi'') \<le> 2"
    by simp_all
  have h2: "three_paragraphs \<noteq> []" "three_paragraphs \<noteq> ''NO_REPLY''"
    "three_paragraphs \<noteq> ''HEARTBEAT_OK''"
    by (simp_all add: three_paragraphs_def)
  have h3: "length (split_on (CHR 0x0A) three_paragraphs) = 5"
    by (simp add: three_paragraphs_def)
  then have h4: "\<not> (length three_paragraphs < 100 \<and>
      length (split_on (CHR 0x0A) three_paragraphs) \<le> 2)"
    by simp
  have h5: "selectMessageType (Some (content ?m)) = Skip"
    by (simp add: selectMessageType_def)
  have h6: "selectOutbound (row_id ?m) demo_store = Some demo_outbound"
    by (simp add: selectOutbound_def demo_store_def demo_outbound_def)
  from t have c1: "selectMessageType None = Skip" by blast
  from t have c2: "selectMessageType (Some ''NO_REPLY'') = Skip" by blast
  from t h1 have c3: "selectMessageType (Some ''hi'') = Text" by blast
  from u h2 h4 have c4: "selectMessageType (Some three_paragraphs) = Interactive" by blast
  from t h5 have c5: "processOutboundItem (sendToLarkWithRetry denying_client) 2000 2001 ?m
       demo_store =
     (markOutboundCompleted 2001 (row_id ?m) None
        (markOutboundProcessing 2000 (row_id ?m) demo_store), [])"
    by blast
  from t h5 h6 have c6: "\<exists>r'. selectOutbound (row_id ?m)
            (fst (processOutboundItem (sendToLarkWithRetry denying_client) 2000 2001 ?m
                    demo_store)) = Some r' \<and>
         status r' = Completed \<and> lark_message_id r' = None \<and>
         retries r' = retries demo_outbound"
    by blast
  show ?thesis
    using c1 c2 h1 c3 h2 h4 h3 c4 h5 c5 h6 c6 by blast
qed

end
